theory Spec2Isabelle
  imports
    Complex_Main
    "HOL-Library.Word"
    "HOL-Library.Multiset"
    "HOL-Library.Char_ord"
    "HOL-Library.List_Lexorder"
    "HOL-Library.Product_Lexorder"
begin

section \<open>Typed column store\<close>

text \<open>
  The engine works on Arrow tables. An \<open>arrow::Array\<close> (one chunk) is seen through
  \<open>IsValid\<close> and the value accessors: a slot is either null or holds a value, so a chunk is a
  list of optional values. A column is a field name with a chunked array of one element type.
  The element types are the three the sources dispatch on: \<open>INT64\<close>, \<open>DOUBLE\<close> and
  \<open>STRING\<close>. An \<open>int64_t\<close> is a 64-bit word read as two's complement; a string is a list
  of bytes; a \<open>double\<close> is a NaN, an infinity, the negative zero, or a finite value given by
  the real number it denotes (\<open>Num 0\<close> is the positive zero).

  Row indices are \<open>int64_t\<close> in the source (\<open>Permutation = std::vector<int64_t>\<close>); they are
  produced by \<open>iotaVector\<close> and used as vector subscripts, so the model takes them as natural
  numbers.
\<close>

type_synonym int64 = "64 word"

datatype double = NaN | NegInf | PosInf | NegZero | Num real

text \<open>
  \<open>operator<\<close> and \<open>operator==\<close> on \<open>double\<close>: a NaN is neither less than nor equal to
  anything, itself included, and the two zeros are equal.
\<close>

fun dless :: "double \<Rightarrow> double \<Rightarrow> bool" where
  "dless NaN b = False"
| "dless a NaN = False"
| "dless a NegInf = False"
| "dless NegInf b = True"
| "dless PosInf b = False"
| "dless a PosInf = True"
| "dless NegZero NegZero = False"
| "dless NegZero (Num s) = (0 < s)"
| "dless (Num r) NegZero = (r < 0)"
| "dless (Num r) (Num s) = (r < s)"

fun deq :: "double \<Rightarrow> double \<Rightarrow> bool" where
  "deq NaN b = False"
| "deq a NaN = False"
| "deq NegInf b = (b = NegInf)"
| "deq a NegInf = False"
| "deq PosInf b = (b = PosInf)"
| "deq a PosInf = False"
| "deq NegZero NegZero = True"
| "deq NegZero (Num s) = (0 = s)"
| "deq (Num r) NegZero = (r = 0)"
| "deq (Num r) (Num s) = (r = s)"

type_synonym 'a Array = "'a option list"

datatype ChunkedArray =
    Int64Chunks "int64 Array list"
  | DoubleChunks "double Array list"
  | StringChunks "string Array list"

record Column =
  field :: string
  data :: ChunkedArray

record Table =
  schema :: "string list"
  columns :: "Column list"

type_synonym Permutation = "nat list"

fun num_chunks :: "ChunkedArray \<Rightarrow> nat" where
  "num_chunks (Int64Chunks cs) = length cs"
| "num_chunks (DoubleChunks cs) = length cs"
| "num_chunks (StringChunks cs) = length cs"

text \<open>\<open>column->length()\<close>: the number of rows over all chunks.\<close>

fun chunked_length :: "ChunkedArray \<Rightarrow> nat" where
  "chunked_length (Int64Chunks cs) = length (concat cs)"
| "chunked_length (DoubleChunks cs) = length (concat cs)"
| "chunked_length (StringChunks cs) = length (concat cs)"

definition column_length :: "Column \<Rightarrow> nat" where
  "column_length c = chunked_length (data c)"

text \<open>\<open>column->null_count()\<close>: the number of null slots over all chunks.\<close>

definition count_nulls :: "'a Array list \<Rightarrow> nat" where
  "count_nulls cs = length (filter (\<lambda>v. v = None) (concat cs))"

fun null_count :: "ChunkedArray \<Rightarrow> nat" where
  "null_count (Int64Chunks cs) = count_nulls cs"
| "null_count (DoubleChunks cs) = count_nulls cs"
| "null_count (StringChunks cs) = count_nulls cs"

text \<open>
  A value of any of the three element types, and the rows of a column as such values:
  \<open>cells\<close> lists the slots of all chunks in row order.
\<close>

datatype Cell = Int64Cell int64 | DoubleCell double | StringCell string

fun cells :: "ChunkedArray \<Rightarrow> Cell option list" where
  "cells (Int64Chunks cs) = map (map_option Int64Cell) (concat cs)"
| "cells (DoubleChunks cs) = map (map_option DoubleCell) (concat cs)"
| "cells (StringChunks cs) = map (map_option StringCell) (concat cs)"

section \<open>Sort engine (Sort.cpp)\<close>

datatype SortOrder = Ascending | Descending

datatype NullPosition = Before | After

record SortBy =
  column :: Column
  order :: SortOrder
  nulls :: NullPosition

text \<open>
  The failures of the sort engine. \<open>NoColumnToSortBy\<close> is the
  \<open>std::runtime_error("no column to sort by")\<close> of \<open>sortPermutation\<close>.
  \<open>ReadPastEnd\<close> stands for an unchecked read past the end of a vector or of the chunks of a
  column: the source has undefined behaviour there, the model reports it as a failure.
\<close>

datatype sort_error = NoColumnToSortBy | ReadPastEnd

text \<open>
  Modelled from the spec: \<open>iotaVector<int64_t>(n)\<close> (Core/Common.h is not among the sources),
  the identity permutation \<open>0, 1, ..., n - 1\<close>.
\<close>

definition iotaVector :: "nat \<Rightarrow> Permutation" where
  "iotaVector n = [0..<n]"

text \<open>
  Modelled from the spec: \<open>toVector<T>(column)\<close> (Core/ArrowUtilities.h is not among the
  sources). It copies the values of all chunks into one dense vector: optional values when the
  column has nulls, raw values when it has none.
\<close>

definition toVector :: "'a Array list \<Rightarrow> 'a option list" where
  "toVector cs = concat cs"

definition toVectorRaw :: "'a Array list \<Rightarrow> 'a list" where
  "toVectorRaw cs = map the (concat cs)"

text \<open>
  \<open>compareRawValues\<close> of \<open>sortPermutationInner\<close>; \<open>lt\<close> is \<open>operator<\<close> of the element
  type, and \<open>lhs > rhs\<close> is \<open>rhs < lhs\<close>.
\<close>

fun compareRawValues :: "('a \<Rightarrow> 'a \<Rightarrow> bool) \<Rightarrow> SortOrder \<Rightarrow> 'a \<Rightarrow> 'a \<Rightarrow> bool" where
  "compareRawValues lt Ascending lhs rhs = lt lhs rhs"
| "compareRawValues lt Descending lhs rhs = lt rhs lhs"

text \<open>
  \<open>compareValues\<close> for a nullable column, in the order of the source's tests. The
  \<open>throw std::runtime_error("sort internal error")\<close> after the fourth test cannot be reached:
  the four tests cover every combination of validity.
\<close>

fun compareValues ::
  "('a \<Rightarrow> 'a \<Rightarrow> bool) \<Rightarrow> SortOrder \<Rightarrow> NullPosition \<Rightarrow> 'a option \<Rightarrow> 'a option \<Rightarrow> bool" where
  "compareValues lt ord np (Some lhs) (Some rhs) = compareRawValues lt ord lhs rhs"
| "compareValues lt ord np None None = False"
| "compareValues lt ord np (Some lhs) None = (np = After)"
| "compareValues lt ord np None (Some rhs) = (np = Before)"

text \<open>
  \<open>std::stable_sort(first, last, cmp)\<close> of the C++ standard library: the range is put in
  order by \<open>cmp\<close> and elements that \<open>cmp\<close> does not separate keep their relative order. For a
  strict weak ordering this result is unique; the model computes it by stable insertion. For a
  comparator that is no strict weak ordering the standard promises nothing; the library then
  still returns some arrangement of the range, and so does the model.
\<close>

fun insert_stable :: "('a \<Rightarrow> 'a \<Rightarrow> bool) \<Rightarrow> 'a \<Rightarrow> 'a list \<Rightarrow> 'a list" where
  "insert_stable cmp x [] = [x]"
| "insert_stable cmp x (y # ys) =
     (if cmp y x then y # insert_stable cmp x ys else x # y # ys)"

definition stable_sort :: "('a \<Rightarrow> 'a \<Rightarrow> bool) \<Rightarrow> 'a list \<Rightarrow> 'a list" where
  "stable_sort cmp xs = foldr (insert_stable cmp) xs []"

text \<open>
  \<open>sortPermutationInner<id, nullable, order, nulls>\<close>: the template parameter \<open>id\<close> is
  the element type, given here by its \<open>operator<\<close>. The comparator reads
  \<open>valuesAsVector[lhsIndex]\<close> and \<open>valuesAsVector[rhsIndex]\<close> unchecked; with two or more
  indices every index is read.
\<close>

definition sortPermutationInner ::
  "('a \<Rightarrow> 'a \<Rightarrow> bool) \<Rightarrow> bool \<Rightarrow> SortOrder \<Rightarrow> NullPosition \<Rightarrow> Permutation \<Rightarrow> 'a Array list
     \<Rightarrow> sort_error + Permutation" where
  "sortPermutationInner lt nullable ord np indices sortBy =
     (if nullable then
        (let valuesAsVector = toVector sortBy in
         if 2 \<le> length indices \<and> (\<exists>i \<in> set indices. length valuesAsVector \<le> i)
         then Inl ReadPastEnd
         else Inr (stable_sort (\<lambda>lhsIndex rhsIndex.
                compareValues lt ord np (valuesAsVector ! lhsIndex) (valuesAsVector ! rhsIndex))
              indices))
      else
        (let valuesAsVector = toVectorRaw sortBy in
         if 2 \<le> length indices \<and> (\<exists>i \<in> set indices. length valuesAsVector \<le> i)
         then Inl ReadPastEnd
         else Inr (stable_sort (\<lambda>lhsIndex rhsIndex.
                compareRawValues lt ord (valuesAsVector ! lhsIndex) (valuesAsVector ! rhsIndex))
              indices)))"

text \<open>
  \<open>sortPermutation(indices, sortBy, order, nullPosition)\<close>: the dispatch on the element
  type and on \<open>null_count() != 0\<close>. Signed comparison for \<open>int64_t\<close>, \<open>operator<\<close> of
  \<open>double\<close>, bytewise lexicographic comparison for strings.
\<close>

fun sortPermutation_column ::
  "Permutation \<Rightarrow> Column \<Rightarrow> SortOrder \<Rightarrow> NullPosition \<Rightarrow> sort_error + Permutation" where
  "sortPermutation_column indices sortBy ord np =
     (case data sortBy of
        Int64Chunks cs \<Rightarrow>
          sortPermutationInner (\<lambda>a b. a <s b) (null_count (data sortBy) \<noteq> 0) ord np indices cs
      | DoubleChunks cs \<Rightarrow>
          sortPermutationInner dless (null_count (data sortBy) \<noteq> 0) ord np indices cs
      | StringChunks cs \<Rightarrow>
          sortPermutationInner (\<lambda>a b. a < b) (null_count (data sortBy) \<noteq> 0) ord np indices cs)"

text \<open>The loop of \<open>sortPermutation\<close> over the (already reversed) keys.\<close>

fun sortPermutation_loop :: "Permutation \<Rightarrow> SortBy list \<Rightarrow> sort_error + Permutation" where
  "sortPermutation_loop indices [] = Inr indices"
| "sortPermutation_loop indices (k # ks) =
     (case sortPermutation_column indices (column k) (order k) (nulls k) of
        Inl e \<Rightarrow> Inl e
      | Inr indices' \<Rightarrow> sortPermutation_loop indices' ks)"

definition sortPermutation :: "SortBy list \<Rightarrow> sort_error + Permutation" where
  "sortPermutation sortBy =
     (if sortBy = [] then Inl NoColumnToSortBy
      else sortPermutation_loop (iotaVector (column_length (column (hd sortBy)))) (rev sortBy))"

text \<open>
  Modelled from the spec: \<open>ChunkAccessor::locate\<close> (Core/ArrowUtilities.h is not among the
  sources). For an input row index it gives the source chunk and the offset of the row in that
  chunk. An index past the last chunk is not located; what the source does there is not known,
  and the model reports \<open>ReadPastEnd\<close>.
\<close>

fun locate :: "'a Array list \<Rightarrow> nat \<Rightarrow> ('a Array \<times> nat) option" where
  "locate [] index = None"
| "locate (chunk # chunks) index =
     (if index < length chunk then Some (chunk, index) else locate chunks (index - length chunk))"

text \<open>
  The loop of \<open>permuteInnerToArray\<close> for one element type. The builder \<open>b\<close> is the list
  of slots appended so far; \<open>IsValid\<close> is "the slot is not null", \<open>arrayValueAt\<close> reads the
  value of a slot, \<open>AppendNull\<close> appends a null slot.
\<close>

fun permute_loop ::
  "bool \<Rightarrow> 'a Array list \<Rightarrow> 'a Array \<Rightarrow> Permutation \<Rightarrow> sort_error + 'a Array" where
  "permute_loop nullable chunks b [] = Inr b"
| "permute_loop nullable chunks b (index # indices) =
     (case locate chunks index of
        None \<Rightarrow> Inl ReadPastEnd
      | Some (chunk, indexInChunk) \<Rightarrow>
          if nullable then
            (if chunk ! indexInChunk \<noteq> None
             then permute_loop nullable chunks (b @ [Some (the (chunk ! indexInChunk))]) indices
             else permute_loop nullable chunks (b @ [None]) indices)
          else permute_loop nullable chunks (b @ [Some (the (chunk ! indexInChunk))]) indices)"

text \<open>An \<open>arrow::Array\<close> of any of the element types.\<close>

datatype ArrowArray =
    Int64Array "int64 Array"
  | DoubleArray "double Array"
  | StringArray "string Array"

text \<open>
  \<open>permuteInnerToArray\<close>: the dispatch on the element type and on
  \<open>null_count() != 0\<close>, around the loop that fills a fresh builder.
\<close>

definition permuteInnerToArray :: "Column \<Rightarrow> Permutation \<Rightarrow> sort_error + ArrowArray" where
  "permuteInnerToArray col indices =
     (case data col of
        Int64Chunks cs \<Rightarrow> map_sum id Int64Array
          (permute_loop (null_count (data col) \<noteq> 0) cs [] indices)
      | DoubleChunks cs \<Rightarrow> map_sum id DoubleArray
          (permute_loop (null_count (data col) \<noteq> 0) cs [] indices)
      | StringChunks cs \<Rightarrow> map_sum id StringArray
          (permute_loop (null_count (data col) \<noteq> 0) cs [] indices))"

text \<open>\<open>std::make_shared<arrow::Column>(field, array)\<close>: a column of one chunk.\<close>

fun column_of_array :: "string \<Rightarrow> ArrowArray \<Rightarrow> Column" where
  "column_of_array f (Int64Array a) = \<lparr>field = f, data = Int64Chunks [a]\<rparr>"
| "column_of_array f (DoubleArray a) = \<lparr>field = f, data = DoubleChunks [a]\<rparr>"
| "column_of_array f (StringArray a) = \<lparr>field = f, data = StringChunks [a]\<rparr>"

definition permuteInner_column :: "Column \<Rightarrow> Permutation \<Rightarrow> sort_error + Column" where
  "permuteInner_column col indices =
     map_sum id (column_of_array (field col)) (permuteInnerToArray col indices)"

text \<open>
  \<open>transformToVector(oldColumns, ...)\<close>: the columns are permuted one after the other; the
  first failure ends the call.
\<close>

fun permuteInner_columns :: "Column list \<Rightarrow> Permutation \<Rightarrow> sort_error + Column list" where
  "permuteInner_columns [] indices = Inr []"
| "permuteInner_columns (col # cols) indices =
     (case permuteInner_column col indices of
        Inl e \<Rightarrow> Inl e
      | Inr col' \<Rightarrow>
          (case permuteInner_columns cols indices of
             Inl e \<Rightarrow> Inl e
           | Inr cols' \<Rightarrow> Inr (col' # cols')))"

definition permuteInner_table :: "Table \<Rightarrow> Permutation \<Rightarrow> sort_error + Table" where
  "permuteInner_table table indices =
     map_sum id (\<lambda>newColumns. \<lparr>schema = schema table, columns = newColumns\<rparr>)
       (permuteInner_columns (columns table) indices)"

text \<open>\<open>isPermuteId\<close>: the loop over \<open>i = 0, 1, ...\<close> that stops at the first \<open>indices[i] != i\<close>.\<close>

fun isPermuteId_from :: "nat \<Rightarrow> Permutation \<Rightarrow> bool" where
  "isPermuteId_from i [] = True"
| "isPermuteId_from i (x # xs) = (if x \<noteq> i then False else isPermuteId_from (Suc i) xs)"

definition isPermuteId :: "Permutation \<Rightarrow> bool" where
  "isPermuteId indices = isPermuteId_from 0 indices"

text \<open>The three public overloads: \<open>permuteToArray\<close>, \<open>permute\<close> on a column and on a table.\<close>

definition permuteToArray :: "Column \<Rightarrow> Permutation \<Rightarrow> sort_error + ArrowArray" where
  "permuteToArray col indices =
     (if isPermuteId indices \<and> num_chunks (data col) = 1
      then (case data col of
              Int64Chunks cs \<Rightarrow> Inr (Int64Array (cs ! 0))
            | DoubleChunks cs \<Rightarrow> Inr (DoubleArray (cs ! 0))
            | StringChunks cs \<Rightarrow> Inr (StringArray (cs ! 0)))
      else permuteInnerToArray col indices)"

definition permute_column :: "Column \<Rightarrow> Permutation \<Rightarrow> sort_error + Column" where
  "permute_column col indices =
     (if isPermuteId indices then Inr col else permuteInner_column col indices)"

definition permute_table :: "Table \<Rightarrow> Permutation \<Rightarrow> sort_error + Table" where
  "permute_table table indices =
     (if isPermuteId indices then Inr table else permuteInner_table table indices)"

definition sortTable :: "Table \<Rightarrow> SortBy list \<Rightarrow> sort_error + Table" where
  "sortTable table sortBy =
     (case sortPermutation sortBy of
        Inl e \<Rightarrow> Inl e
      | Inr permutation \<Rightarrow> permute_table table permutation)"

section \<open>Vocabulary for the sort properties\<close>














text \<open>
  The key's column read in the order of the permutation that \<open>sortPermutation\<close> returns for
  that single key, and the run of its non-null values.
\<close>

definition sortedCells :: "SortBy \<Rightarrow> Cell option list" where
  "sortedCells k =
     (case sortPermutation [k] of
        Inl e \<Rightarrow> []
      | Inr perm \<Rightarrow> map (\<lambda>i. cells (data (column k)) ! i) perm)"



text \<open>A table whose columns all have \<open>n\<close> rows (the invariant of the data model).\<close>

definition table_rows :: "Table \<Rightarrow> nat \<Rightarrow> bool" where
  "table_rows t n = list_all (\<lambda>c. column_length c = n) (columns t)"

section \<open>Expression interpreter (Interpreter.cpp)\<close>

text \<open>
  Modelled from the spec: the expression tree of AST.h (not among the sources). A value node is
  a column reference, a typed literal or a \<open>ValueOperation\<close>; a predicate node is a comparison
  of two values (\<open>PredicateFromValueOperation\<close>) or a boolean combinator over predicates
  (\<open>PredicateOperation\<close>). An operation node holds \<open>ast::MaxOperatorArity = 2\<close> operands, and
  \<open>evaluateOperands\<close> dereferences both. The string literal is the node of the handler that
  the source has commented out; it falls to the catch-all handler. \<open>OtherComparison\<close> stands
  for an enumerator other than the three that \<open>evaluate\<close> names.
\<close>

datatype ValueOperator = Plus | Minus | Times | Divide | Negate

datatype PredicateFromValueOperator = Greater | Lesser | Equal | OtherComparison int

datatype PredicateOperator = And | Or | Not

datatype Value =
    ColumnReference nat
  | ValueOperation ValueOperator Value Value
  | LiteralInt64 int64
  | LiteralDouble double
  | LiteralString string

datatype Predicate =
    PredicateFromValueOperation PredicateFromValueOperator Value Value
  | PredicateOperation PredicateOperator "Predicate list"

text \<open>
  \<open>Field\<close>, the variant over \<open>int64_t\<close>, \<open>double\<close> and \<open>ArrayOperand<T>\<close> for the three
  element types. An array operand of \<open>int64_t\<close> or \<open>double\<close> is the content of its buffer.
  The buffer of an \<open>ArrayOperand<std::string>\<close> never holds \<open>std::string\<close> objects: it is
  either \<open>buffers.at(1)\<close> of a string chunk, which is the chunk's buffer of 32-bit offsets, or
  the memory that \<open>exec\<close> has allocated for a result and not initialised. The model records
  which buffer it is and, for an allocated one, for how many elements.
\<close>

datatype StringBuffer = OffsetsOf "string Array" | Allocated nat

datatype Field =
    ScalarInt64 int64
  | ScalarDouble double
  | ArrayInt64 "int64 list"
  | ArrayDouble "double list"
  | ArrayString StringBuffer

text \<open>
  The element type of a per-row value, as \<open>typeid(...).name()\<close> reports it in the message of
  the type error.
\<close>

datatype ElemType = Int64T | DoubleT | StringT

fun elemType :: "Cell \<Rightarrow> ElemType" where
  "elemType (Int64Cell a) = Int64T"
| "elemType (DoubleCell a) = DoubleT"
| "elemType (StringCell a) = StringT"

fun fieldElemType :: "Field \<Rightarrow> ElemType" where
  "fieldElemType (ScalarInt64 a) = Int64T"
| "fieldElemType (ScalarDouble a) = DoubleT"
| "fieldElemType (ArrayInt64 xs) = Int64T"
| "fieldElemType (ArrayDouble xs) = DoubleT"
| "fieldElemType (ArrayString xs) = StringT"

text \<open>
  The failures of the interpreter, one constructor per \<open>std::runtime_error\<close> message:
  "not implemented: processing of chunked arrays", "not supported operand types: L and R" (the
  two \<open>typeid\<close> names of the operands and nothing else), "not implemented: value operator N",
  "not implemented: predicate operator N", "not implemented: PredicateOperation" and
  "not implemented: value node of type T". \<open>BufferReadPastEnd\<close> stands for an unchecked read
  past the end of a buffer or of the \<open>columns\<close> vector, and \<open>StringBufferRead\<close> for the
  copy of a \<open>std::string\<close> out of a buffer that holds none: undefined behaviour in the
  source, reported as a failure by the model.
\<close>

datatype interp_error =
    NotImplementedChunkedArrays
  | NotSupportedOperandTypes ElemType ElemType
  | NotImplementedValueOperator ValueOperator
  | NotImplementedPredicateOperator PredicateFromValueOperator
  | NotImplementedPredicateOperation
  | NotImplementedValueNode
  | BufferReadPastEnd
  | StringBufferRead

text \<open>
  What the model leaves open about the machine: \<open>addDouble\<close> is \<open>+\<close> on \<open>double\<close>, and
  \<open>nullInt64\<close> and \<open>nullDouble\<close> are what the values buffer of a chunk holds at the index of
  a null slot, which \<open>fieldFromColumn\<close> does not look at.
\<close>

record Machine =
  addDouble :: "double \<Rightarrow> double \<Rightarrow> double"
  nullInt64 :: "int64 Array \<Rightarrow> nat \<Rightarrow> int64"
  nullDouble :: "double Array \<Rightarrow> nat \<Rightarrow> double"

text \<open>
  \<open>getValue\<close>: element \<open>index\<close> of an array operand, the value itself for a scalar. It
  returns by value, so on an \<open>ArrayOperand<std::string>\<close> it copies a \<open>std::string\<close> out
  of the buffer.
\<close>

fun getValue :: "Field \<Rightarrow> nat \<Rightarrow> interp_error + Cell" where
  "getValue (ScalarInt64 a) index = Inr (Int64Cell a)"
| "getValue (ScalarDouble a) index = Inr (DoubleCell a)"
| "getValue (ArrayInt64 xs) index =
     (if index < length xs then Inr (Int64Cell (xs ! index)) else Inl BufferReadPastEnd)"
| "getValue (ArrayDouble xs) index =
     (if index < length xs then Inr (DoubleCell (xs ! index)) else Inl BufferReadPastEnd)"
| "getValue (ArrayString buffer) index = Inl StringBufferRead"

text \<open>
  \<open>BINARY_OPERATOR(op)\<close>: the first overload of \<open>exec\<close> takes two operands of one type and
  returns \<open>lhs op rhs\<close>; every other pair of types selects the second overload, which throws.
  \<open>Plus::exec\<close> is the only arithmetic kernel that the evaluator instantiates. \<open>cellLess\<close>
  and \<open>cellEqual\<close> are \<open>operator<\<close> and \<open>operator==\<close> on two values of one type.
\<close>

fun cellLess :: "Cell \<Rightarrow> Cell \<Rightarrow> bool" where
  "cellLess (Int64Cell a) (Int64Cell b) = (a <s b)"
| "cellLess (DoubleCell a) (DoubleCell b) = dless a b"
| "cellLess (StringCell a) (StringCell b) = (a < b)"
| "cellLess _ _ = False"

fun cellEqual :: "Cell \<Rightarrow> Cell \<Rightarrow> bool" where
  "cellEqual (Int64Cell a) (Int64Cell b) = (a = b)"
| "cellEqual (DoubleCell a) (DoubleCell b) = deq a b"
| "cellEqual (StringCell a) (StringCell b) = (a = b)"
| "cellEqual _ _ = False"

fun Plus_exec :: "Machine \<Rightarrow> Cell \<Rightarrow> Cell \<Rightarrow> interp_error + Cell" where
  "Plus_exec m (Int64Cell lhs) (Int64Cell rhs) = Inr (Int64Cell (lhs + rhs))"
| "Plus_exec m (DoubleCell lhs) (DoubleCell rhs) = Inr (DoubleCell (addDouble m lhs rhs))"
| "Plus_exec m (StringCell lhs) (StringCell rhs) = Inr (StringCell (lhs @ rhs))"
| "Plus_exec m lhs rhs = Inl (NotSupportedOperandTypes (elemType lhs) (elemType rhs))"

datatype Comparison = GreaterThan | LessThan | EqualTo

fun same_type_compare :: "Comparison \<Rightarrow> Cell \<Rightarrow> Cell \<Rightarrow> bool" where
  "same_type_compare GreaterThan lhs rhs = cellLess rhs lhs"
| "same_type_compare LessThan lhs rhs = cellLess lhs rhs"
| "same_type_compare EqualTo lhs rhs = cellEqual lhs rhs"

definition Comparison_exec :: "Comparison \<Rightarrow> Cell \<Rightarrow> Cell \<Rightarrow> interp_error + bool" where
  "Comparison_exec cmp lhs rhs =
     (if elemType lhs = elemType rhs then Inr (same_type_compare cmp lhs rhs)
      else Inl (NotSupportedOperandTypes (elemType lhs) (elemType rhs)))"

text \<open>
  The loop of \<open>exec<Operation>(lhs, rhs, count)\<close> over the rows \<open>0, ..., count - 1\<close>: the
  kernel is applied to the pair of per-row values, and the first failure ends the call.
\<close>

fun exec_rows ::
  "(Cell \<Rightarrow> Cell \<Rightarrow> interp_error + 'r) \<Rightarrow> Field \<Rightarrow> Field \<Rightarrow> nat list \<Rightarrow> interp_error + 'r list" where
  "exec_rows krn lhs rhs [] = Inr []"
| "exec_rows krn lhs rhs (i # rows) =
     (case getValue lhs i of
        Inl e \<Rightarrow> Inl e
      | Inr l \<Rightarrow>
          (case getValue rhs i of
             Inl e \<Rightarrow> Inl e
           | Inr r \<Rightarrow>
               (case krn l r of
                  Inl e \<Rightarrow> Inl e
                | Inr v \<Rightarrow>
                    (case exec_rows krn lhs rhs rows of
                       Inl e \<Rightarrow> Inl e
                     | Inr vs \<Rightarrow> Inr (v # vs)))))"

text \<open>
  The result array \<open>ArrayOperand<OperandValue>\<close>. For \<open>Plus\<close> its element type is that of
  \<open>Plus::exec\<close> on the per-row values, which is the element type of the left operand also
  when the throwing overload is selected (its return type is that of \<open>exec(lhs, lhs)\<close>). The
  values that the loop has produced have this type; an array of strings is allocated for as
  many elements as there are rows.
\<close>

fun int64_of :: "Cell \<Rightarrow> int64 option" where
  "int64_of (Int64Cell a) = Some a"
| "int64_of c = None"

fun double_of :: "Cell \<Rightarrow> double option" where
  "double_of (DoubleCell a) = Some a"
| "double_of c = None"

fun arrayOperand :: "ElemType \<Rightarrow> Cell list \<Rightarrow> Field" where
  "arrayOperand Int64T vs = ArrayInt64 (List.map_filter int64_of vs)"
| "arrayOperand DoubleT vs = ArrayDouble (List.map_filter double_of vs)"
| "arrayOperand StringT vs = ArrayString (Allocated (length vs))"

definition exec_Plus :: "Machine \<Rightarrow> Field \<Rightarrow> Field \<Rightarrow> nat \<Rightarrow> interp_error + Field" where
  "exec_Plus m lhs rhs rowCount =
     (case exec_rows (Plus_exec m) lhs rhs [0..<rowCount] of
        Inl e \<Rightarrow> Inl e
      | Inr vs \<Rightarrow> Inr (arrayOperand (fieldElemType lhs) vs))"

text \<open>A comparison yields \<open>bool\<close>, stored as one \<open>unsigned char\<close> per row.\<close>

definition toByte :: "bool \<Rightarrow> 8 word" where
  "toByte b = (if b then 1 else 0)"

definition exec_Comparison ::
  "Comparison \<Rightarrow> Field \<Rightarrow> Field \<Rightarrow> nat \<Rightarrow> interp_error + 8 word list" where
  "exec_Comparison cmp lhs rhs rowCount =
     (case exec_rows (Comparison_exec cmp) lhs rhs [0..<rowCount] of
        Inl e \<Rightarrow> Inl e
      | Inr bs \<Rightarrow> Inr (map toByte bs))"

text \<open>
  The interpreter is bound to a table and to the columns that its constructor has looked up
  through the column mapping (the member \<open>columns\<close> of the source, \<open>boundColumns\<close> here).
  \<open>table.num_rows()\<close> is the length of the first column of the table, 0 for a table without
  columns.
\<close>

record Interpreter =
  table :: Table
  boundColumns :: "Column list"

definition num_rows :: "Table \<Rightarrow> nat" where
  "num_rows t = (case columns t of [] \<Rightarrow> 0 | c # cs \<Rightarrow> column_length c)"

text \<open>
  \<open>buffers.at(1)\<close> of a chunk of \<open>int64_t\<close> or \<open>double\<close>: the values of its slots, with
  whatever the buffer holds at the index of a null slot. The source notes that wrapping
  \<open>buffers.at(1)\<close> works only for primitive arrays: for a string chunk that buffer is the
  buffer of offsets.
\<close>

definition valuesBuffer :: "('a Array \<Rightarrow> nat \<Rightarrow> 'a) \<Rightarrow> 'a Array \<Rightarrow> 'a list" where
  "valuesBuffer nullSlot chunk =
     map (\<lambda>i. case chunk ! i of None \<Rightarrow> nullSlot chunk i | Some v \<Rightarrow> v) [0..<length chunk]"

definition fieldFromColumn :: "Machine \<Rightarrow> Column \<Rightarrow> interp_error + Field" where
  "fieldFromColumn m col =
     (if num_chunks (data col) \<noteq> 1 then Inl NotImplementedChunkedArrays
      else (case data col of
              Int64Chunks cs \<Rightarrow> Inr (ArrayInt64 (valuesBuffer (nullInt64 m) (cs ! 0)))
            | DoubleChunks cs \<Rightarrow> Inr (ArrayDouble (valuesBuffer (nullDouble m) (cs ! 0)))
            | StringChunks cs \<Rightarrow> Inr (ArrayString (OffsetsOf (cs ! 0)))))"

text \<open>
  \<open>evaluateValue\<close>. For a \<open>ValueOperation\<close> both operands are evaluated, the left one first,
  before the switch on the operator. \<open>columns[col.columnRefId]\<close> is an unchecked subscript.
\<close>

fun evaluateValue :: "Machine \<Rightarrow> Interpreter \<Rightarrow> Value \<Rightarrow> interp_error + Field" where
  "evaluateValue m I (ColumnReference columnRefId) =
     (if columnRefId < length (boundColumns I) then fieldFromColumn m (boundColumns I ! columnRefId)
      else Inl BufferReadPastEnd)"
| "evaluateValue m I (ValueOperation what operand0 operand1) =
     (case evaluateValue m I operand0 of
        Inl e \<Rightarrow> Inl e
      | Inr lhs \<Rightarrow>
          (case evaluateValue m I operand1 of
             Inl e \<Rightarrow> Inl e
           | Inr rhs \<Rightarrow>
               (case what of
                  Plus \<Rightarrow> exec_Plus m lhs rhs (num_rows (table I))
                | _ \<Rightarrow> Inl (NotImplementedValueOperator what))))"
| "evaluateValue m I (LiteralInt64 l) = Inr (ScalarInt64 l)"
| "evaluateValue m I (LiteralDouble l) = Inr (ScalarDouble l)"
| "evaluateValue m I (LiteralString l) = Inl NotImplementedValueNode"

text \<open>\<open>evaluate\<close> on a predicate.\<close>

fun evaluate :: "Machine \<Rightarrow> Interpreter \<Rightarrow> Predicate \<Rightarrow> interp_error + 8 word list" where
  "evaluate m I (PredicateFromValueOperation what operand0 operand1) =
     (case evaluateValue m I operand0 of
        Inl e \<Rightarrow> Inl e
      | Inr lhs \<Rightarrow>
          (case evaluateValue m I operand1 of
             Inl e \<Rightarrow> Inl e
           | Inr rhs \<Rightarrow>
               (case what of
                  Greater \<Rightarrow> exec_Comparison GreaterThan lhs rhs (num_rows (table I))
                | Lesser \<Rightarrow> exec_Comparison LessThan lhs rhs (num_rows (table I))
                | Equal \<Rightarrow> exec_Comparison EqualTo lhs rhs (num_rows (table I))
                | OtherComparison n \<Rightarrow> Inl (NotImplementedPredicateOperator what))))"
| "evaluate m I (PredicateOperation what operands) = Inl NotImplementedPredicateOperation"

section \<open>Vocabulary for the interpreter properties\<close>



text \<open>An operand whose buffer has an element for each of \<open>rowCount\<close> rows.\<close>

fun coversRows :: "nat \<Rightarrow> Field \<Rightarrow> bool" where
  "coversRows rowCount (ScalarInt64 a) = True"
| "coversRows rowCount (ScalarDouble a) = True"
| "coversRows rowCount (ArrayInt64 xs) = (rowCount \<le> length xs)"
| "coversRows rowCount (ArrayDouble xs) = (rowCount \<le> length xs)"
| "coversRows rowCount (ArrayString (OffsetsOf chunk)) = (rowCount \<le> length chunk)"
| "coversRows rowCount (ArrayString (Allocated n)) = (rowCount \<le> n)"

section \<open>Spreadsheet import (XLSX.cpp)\<close>

text \<open>
  The xlnt workbook is an external library. A cell is what \<open>readXlsxFile\<close> asks of it:
  \<open>has_value()\<close>, \<open>to_string()\<close>, \<open>value<int64_t>()\<close> and \<open>value<double>()\<close>. The active sheet
  is \<open>highest_row()\<close>, \<open>highest_column().index\<close> and the cells it has, by their 1-based
  (column, row) reference; \<open>has_cell\<close> is "there is a cell at the reference".
\<close>

record XlCell =
  has_value :: bool
  to_string :: string
  value_int64 :: int64
  value_double :: double

record Worksheet =
  highest_row :: nat
  highest_column :: nat
  cellAt :: "nat \<times> nat \<Rightarrow> XlCell option"

text \<open>
  \<open>ColumnType\<close>: an Arrow type and the nullable flag. The type ids are the three that
  \<open>readXlsxFile\<close> switches on; \<open>OTHER\<close> stands for every other id.
\<close>

datatype TypeId = INT64 | DOUBLE | STRING | OTHER

record ColumnType =
  typeId :: TypeId
  nullable :: bool

definition nonNullableText :: ColumnType where
  "nonNullableText = \<lparr>typeId = STRING, nullable = False\<rparr>"

text \<open>
  Modelled from the spec: \<open>HeaderPolicy\<close>, \<open>decideColumnNames\<close>, \<open>defaultValue<type>()\<close> and
  \<open>buildTable\<close> (the headers that declare them are not among the sources). The header policy
  is either \<open>TakeFirstRowAsHeaders\<close> or another alternative of the variant;
  \<open>decideColumnNames\<close>, which is given the column count, the policy and a function that reads
  the text of the first row, and the default values of the three types are parameters; the
  result is what \<open>readXlsxFile\<close> hands to \<open>buildTable\<close>.
\<close>

datatype HeaderPolicy = TakeFirstRowAsHeaders | OtherHeaderPolicy

record Defaults =
  defaultInt64 :: int64
  defaultDouble :: double
  defaultString :: string

record Imported =
  names :: "string list"
  arrays :: "ArrowArray list"
  columnTypes :: "ColumnType list"

text \<open>
  The failures of the import: "wrong array type" for a type id that has no builder, wrapped by
  the handler of \<open>readXlsxFile\<close> into "Failed to parse file ...".
\<close>

datatype xlsx_error = WrongArrayType | FailedToParseFile xlsx_error

text \<open>
  \<open>ColumnBuilder<type>\<close>: the nullable flag and the slots appended to the Arrow builder so
  far.
\<close>

datatype ColumnBuilder =
    Int64Builder bool "int64 Array"
  | DoubleBuilder bool "double Array"
  | StringBuilder bool "string Array"

fun addMissing :: "Defaults \<Rightarrow> ColumnBuilder \<Rightarrow> ColumnBuilder" where
  "addMissing d (Int64Builder nl b) =
     (if nl then Int64Builder nl (b @ [None]) else Int64Builder nl (b @ [Some (defaultInt64 d)]))"
| "addMissing d (DoubleBuilder nl b) =
     (if nl then DoubleBuilder nl (b @ [None]) else DoubleBuilder nl (b @ [Some (defaultDouble d)]))"
| "addMissing d (StringBuilder nl b) =
     (if nl then StringBuilder nl (b @ [None]) else StringBuilder nl (b @ [Some (defaultString d)]))"

text \<open>
  \<open>addFromCell\<close>; its \<open>throw std::runtime_error("wrong type")\<close> belongs to no builder that
  \<open>readXlsxFile\<close> creates.
\<close>

fun addFromCell :: "Defaults \<Rightarrow> XlCell \<Rightarrow> ColumnBuilder \<Rightarrow> ColumnBuilder" where
  "addFromCell d cell (StringBuilder nl b) =
     (if has_value cell then StringBuilder nl (b @ [Some (to_string cell)])
      else addMissing d (StringBuilder nl b))"
| "addFromCell d cell (Int64Builder nl b) =
     (if has_value cell then Int64Builder nl (b @ [Some (value_int64 cell)])
      else addMissing d (Int64Builder nl b))"
| "addFromCell d cell (DoubleBuilder nl b) =
     (if has_value cell then DoubleBuilder nl (b @ [Some (value_double cell)])
      else addMissing d (DoubleBuilder nl b))"

fun finish :: "ColumnBuilder \<Rightarrow> ArrowArray" where
  "finish (Int64Builder nl b) = Int64Array b"
| "finish (DoubleBuilder nl b) = DoubleArray b"
| "finish (StringBuilder nl b) = StringArray b"

text \<open>The switch that sets up one builder for a column type.\<close>

fun makeBuilder :: "ColumnType \<Rightarrow> xlsx_error + ColumnBuilder" where
  "makeBuilder columnType =
     (case typeId columnType of
        INT64 \<Rightarrow> Inr (Int64Builder (nullable columnType) [])
      | DOUBLE \<Rightarrow> Inr (DoubleBuilder (nullable columnType) [])
      | STRING \<Rightarrow> Inr (StringBuilder (nullable columnType) [])
      | OTHER \<Rightarrow> Inl WrongArrayType)"

fun makeBuilders :: "ColumnType list \<Rightarrow> xlsx_error + ColumnBuilder list" where
  "makeBuilders [] = Inr []"
| "makeBuilders (columnType # rest) =
     (case makeBuilder columnType of
        Inl e \<Rightarrow> Inl e
      | Inr b \<Rightarrow>
          (case makeBuilders rest of
             Inl e \<Rightarrow> Inl e
           | Inr bs \<Rightarrow> Inr (b # bs)))"

text \<open>
  The two nested loops: for each column, for each row from the first data row on, the builder
  of the column takes the cell at \<open>(column + 1, row + 1)\<close> or a missing value.
\<close>

fun fill_column :: "Defaults \<Rightarrow> Worksheet \<Rightarrow> nat \<Rightarrow> nat list \<Rightarrow> ColumnBuilder \<Rightarrow> ColumnBuilder" where
  "fill_column d sheet col [] b = b"
| "fill_column d sheet col (row # rows) b =
     fill_column d sheet col rows
       (case cellAt sheet (col + 1, row + 1) of
          Some cell \<Rightarrow> addFromCell d cell b
        | None \<Rightarrow> addMissing d b)"

fun fill_columns ::
  "Defaults \<Rightarrow> Worksheet \<Rightarrow> nat list \<Rightarrow> nat list \<Rightarrow> ColumnBuilder list \<Rightarrow> ColumnBuilder list" where
  "fill_columns d sheet rows [] columnBuilders = columnBuilders"
| "fill_columns d sheet rows (col # cols) columnBuilders =
     fill_columns d sheet rows cols
       (columnBuilders[col := fill_column d sheet col rows (columnBuilders ! col)])"

definition firstDataRow :: "HeaderPolicy \<Rightarrow> nat" where
  "firstDataRow header = (if header = TakeFirstRowAsHeaders then 1 else 0)"

text \<open>
  \<open>readXlsxFile\<close> on the active sheet of the loaded workbook. \<open>firstRowText\<close> is the
  function handed to \<open>decideColumnNames\<close>: the text of the cell of the first row, empty for a
  reference without a cell. The column types are padded
  with non-nullable text up to the column count; the second loop of the set-up, which adds
  text builders up to the column count, is kept although the padding leaves it nothing to do.
\<close>

definition firstRowText :: "Worksheet \<Rightarrow> nat \<Rightarrow> string" where
  "firstRowText sheet col =
     (case cellAt sheet (col + 1, 0 + 1) of Some cell \<Rightarrow> to_string cell | None \<Rightarrow> [])"

definition readXlsxFile ::
  "(nat \<Rightarrow> HeaderPolicy \<Rightarrow> (nat \<Rightarrow> string) \<Rightarrow> string list) \<Rightarrow> Defaults \<Rightarrow> Worksheet \<Rightarrow> HeaderPolicy
     \<Rightarrow> ColumnType list \<Rightarrow> xlsx_error + Imported" where
  "readXlsxFile decideColumnNames d sheet header columnTypes0 =
     (let rowCount = highest_row sheet;
          columnCount = highest_column sheet;
          columnTypes1 =
            (if length columnTypes0 < columnCount
             then columnTypes0 @ replicate (columnCount - length columnTypes0) nonNullableText
             else columnTypes0)
      in case makeBuilders columnTypes1 of
           Inl e \<Rightarrow> Inl (FailedToParseFile e)
         | Inr builders0 \<Rightarrow>
             (let builders1 =
                    builders0 @ replicate (columnCount - length builders0) (StringBuilder False []);
                  builders2 =
                    fill_columns d sheet [firstDataRow header..<rowCount] [0..<columnCount] builders1
              in Inr \<lparr>names = decideColumnNames columnCount header (firstRowText sheet),
                       arrays = map finish builders2,
                       columnTypes = columnTypes1\<rparr>))"

section \<open>Vocabulary for the import properties\<close>

text \<open>The slots of an array as cells.\<close>

fun arrayCells :: "ArrowArray \<Rightarrow> Cell option list" where
  "arrayCells (Int64Array a) = map (map_option Int64Cell) a"
| "arrayCells (DoubleArray a) = map (map_option DoubleCell) a"
| "arrayCells (StringArray a) = map (map_option StringCell) a"

text \<open>
  What a slot of an imported column holds, by the type and the nullable flag of the column and
  by the source cell: the converted content of a cell that has content; for a cell without
  content, or a reference without a cell, null in a nullable column and the default value of
  the type in a column that is not nullable.
\<close>

fun cellValue :: "TypeId \<Rightarrow> XlCell \<Rightarrow> Cell" where
  "cellValue INT64 cell = Int64Cell (value_int64 cell)"
| "cellValue DOUBLE cell = DoubleCell (value_double cell)"
| "cellValue STRING cell = StringCell (to_string cell)"
| "cellValue OTHER cell = StringCell (to_string cell)"

fun defaultCell :: "Defaults \<Rightarrow> TypeId \<Rightarrow> Cell" where
  "defaultCell d INT64 = Int64Cell (defaultInt64 d)"
| "defaultCell d DOUBLE = DoubleCell (defaultDouble d)"
| "defaultCell d STRING = StringCell (defaultString d)"
| "defaultCell d OTHER = StringCell (defaultString d)"

definition importedSlot :: "Defaults \<Rightarrow> ColumnType \<Rightarrow> XlCell option \<Rightarrow> Cell option" where
  "importedSlot d columnType source =
     (case source of
        Some cell \<Rightarrow>
          if has_value cell then Some (cellValue (typeId columnType) cell)
          else if nullable columnType then None
          else Some (defaultCell d (typeId columnType))
      | None \<Rightarrow>
          if nullable columnType then None else Some (defaultCell d (typeId columnType)))"

text \<open>The builder that \<open>makeBuilder\<close> sets up for a column type, with its slots as cells.\<close>

fun builderType :: "ColumnBuilder \<Rightarrow> ColumnType" where
  "builderType (Int64Builder nl b) = \<lparr>typeId = INT64, nullable = nl\<rparr>"
| "builderType (DoubleBuilder nl b) = \<lparr>typeId = DOUBLE, nullable = nl\<rparr>"
| "builderType (StringBuilder nl b) = \<lparr>typeId = STRING, nullable = nl\<rparr>"

section \<open>Example data\<close>

text \<open>
  The three rows \<open>(A=1,B=2), (A=1,B=1), (A=0,B=5)\<close>, column \<open>B\<close> stored in two chunks; a
  column \<open>B2\<close> that ties on the first two rows; columns with nulls, with a NaN and with the
  two zeros.
\<close>

definition exA :: Column where
  "exA = \<lparr>field = ''A'', data = Int64Chunks [[Some 1, Some 1, Some 0]]\<rparr>"

definition exB :: Column where
  "exB = \<lparr>field = ''B'', data = Int64Chunks [[Some 2, Some 1], [Some 5]]\<rparr>"

definition exN :: Column where
  "exN = \<lparr>field = ''N'', data = Int64Chunks [[Some 7, None], [Some 3]]\<rparr>"

definition exKeyN :: SortBy where
  "exKeyN = \<lparr>column = exN, order = Descending, nulls = After\<rparr>"





definition exZeros :: Column where
  "exZeros = \<lparr>field = ''Z'',
               data = DoubleChunks [[Some (Num 2), Some (Num 0), None], [Some NegZero, Some NegInf]]\<rparr>"

definition exKeyZeros :: SortBy where
  "exKeyZeros = \<lparr>column = exZeros, order = Descending, nulls = Before\<rparr>"

definition exKeys :: "SortBy list" where
  "exKeys = [\<lparr>column = exA, order = Ascending, nulls = Before\<rparr>,
             \<lparr>column = exB, order = Ascending, nulls = Before\<rparr>]"

definition exTable :: Table where
  "exTable = \<lparr>schema = [''A'', ''B'', ''N''], columns = [exA, exB, exN]\<rparr>"

text \<open>
  A machine, the table of the column \<open>[1, 2, 3]\<close> with a column of doubles, a table whose
  first column has two chunks, a table of one column of strings, and a table of one column
  without rows.
\<close>

fun exAdd :: "double \<Rightarrow> double \<Rightarrow> double" where
  "exAdd (Num r) (Num s) = Num (r + s)"
| "exAdd a b = NaN"

definition exMachine :: Machine where
  "exMachine = \<lparr>addDouble = exAdd, nullInt64 = (\<lambda>chunk i. 0), nullDouble = (\<lambda>chunk i. Num 0)\<rparr>"

definition exC :: Column where
  "exC = \<lparr>field = ''C'', data = Int64Chunks [[Some 1, Some 2, Some 3]]\<rparr>"

definition exD :: Column where
  "exD = \<lparr>field = ''D'', data = DoubleChunks [[Some (Num 1), Some (Num 2), Some (Num 3)]]\<rparr>"

definition exInterpreter :: Interpreter where
  "exInterpreter = \<lparr>table = \<lparr>schema = [''C'', ''D''], columns = [exC, exD]\<rparr>,
                      boundColumns = [exC, exD]\<rparr>"


definition exS :: Column where
  "exS = \<lparr>field = ''S'', data = StringChunks [[Some ''a'', Some ''b'', Some ''c'']]\<rparr>"

definition exStrings :: Interpreter where
  "exStrings = \<lparr>table = \<lparr>schema = [''S''], columns = [exS]\<rparr>, boundColumns = [exS]\<rparr>"

definition exE :: Column where
  "exE = \<lparr>field = ''E'', data = Int64Chunks [[]]\<rparr>"

definition exEmpty :: Interpreter where
  "exEmpty = \<lparr>table = \<lparr>schema = [''E''], columns = [exE]\<rparr>, boundColumns = [exE]\<rparr>"

text \<open>
  A sheet of one column and two rows, the cell of the second row absent, and a sheet whose only
  column is declared nullable \<open>INT64\<close> and whose second cell has no content.
\<close>

definition exDefaults :: Defaults where
  "exDefaults = \<lparr>defaultInt64 = 0, defaultDouble = Num 0, defaultString = []\<rparr>"

definition exCellX :: XlCell where
  "exCellX = \<lparr>has_value = True, to_string = ''x'', value_int64 = 0, value_double = Num 0\<rparr>"

definition exCellBlank :: XlCell where
  "exCellBlank = \<lparr>has_value = False, to_string = [], value_int64 = 0, value_double = Num 0\<rparr>"

definition exCell7 :: XlCell where
  "exCell7 = \<lparr>has_value = True, to_string = ''7'', value_int64 = 7, value_double = Num 7\<rparr>"

definition exSheet :: Worksheet where
  "exSheet = \<lparr>highest_row = 2, highest_column = 1,
                cellAt = (\<lambda>ref. if ref = (1, 1) then Some exCellX else None)\<rparr>"

definition exSheetN :: Worksheet where
  "exSheetN = \<lparr>highest_row = 3, highest_column = 1,
                 cellAt = (\<lambda>ref. if ref = (1, 1) then Some exCell7
                                else if ref = (1, 2) then Some exCellBlank else None)\<rparr>"

definition exNames :: "nat \<Rightarrow> HeaderPolicy \<Rightarrow> (nat \<Rightarrow> string) \<Rightarrow> string list" where
  "exNames columnCount header firstRow = replicate columnCount ''col''"

section \<open>Properties of the sort engine\<close>

lemma sortPermutation_column_not_config:
  "sortPermutation_column indices c ord np \<noteq> Inl NoColumnToSortBy"
  by (auto simp: sortPermutationInner_def Let_def split: ChunkedArray.splits)

lemma sortPermutation_loop_not_config:
  "sortPermutation_loop indices ks \<noteq> Inl NoColumnToSortBy"
proof (induction ks arbitrary: indices)
  case Nil
  show ?case by simp
next
  case (Cons k ks)
  show ?case
    using Cons.IH sortPermutation_column_not_config [of indices "column k" "order k" "nulls k"]
    by (cases "sortPermutation_column indices (column k) (order k) (nulls k)") auto
qed



lemma mset_insert_stable: "mset (insert_stable cmp x ys) = add_mset x (mset ys)"
  by (induction ys) auto

lemma mset_stable_sort: "mset (stable_sort cmp xs) = mset xs"
  by (induction xs) (auto simp: stable_sort_def mset_insert_stable)



lemma length_stable_sort: "length (stable_sort cmp xs) = length xs"
  using mset_stable_sort [of cmp xs] by (metis size_mset)

































lemma sortPermutation_example: "sortPermutation exKeys = Inr [2, 1, 0]"
  by code_simp


text \<open>
  C7. \<open>sortPermutation\<close> on the empty key list fails with the configuration error ("no
  column to sort by") and returns no permutation; on a key list with at least one entry that
  error is never the result.
\<close>

theorem sortPermutation_empty_keys:
  "sortPermutation [] = Inl NoColumnToSortBy \<and>
   (sortBy \<noteq> [] \<longrightarrow> sortPermutation sortBy \<noteq> Inl NoColumnToSortBy)"
  using sortPermutation_loop_not_config
  by (simp add: sortPermutation_def)

theorem sortPermutation_empty_keys_witness:
  "exKeys \<noteq> [] \<and> sortPermutation [] = Inl NoColumnToSortBy
   \<and> sortPermutation exKeys \<noteq> Inl NoColumnToSortBy"
  using sortPermutation_empty_keys [of exKeys] by (simp add: exKeys_def)

section \<open>Properties of permute\<close>

lemma locate_concat:
  "i < length (concat cs) \<Longrightarrow>
     \<exists>c j. locate cs i = Some (c, j) \<and> c ! j = concat cs ! i"
proof (induction cs arbitrary: i)
  case Nil
  then show ?case by simp
next
  case (Cons c cs)
  show ?case
  proof (cases "i < length c")
    case True
    then show ?thesis by (simp add: nth_append)
  next
    case False
    then have "i - length c < length (concat cs)"
      using Cons.prems by simp
    from Cons.IH [OF this] show ?thesis
      using False by (simp add: nth_append)
  qed
qed

lemma permute_loop_eq:
  assumes "\<forall>i \<in> set indices. i < length (concat cs)"
    and "nl \<or> None \<notin> set (concat cs)"
  shows "permute_loop nl cs b indices = Inr (b @ map (\<lambda>i. concat cs ! i) indices)"
  using assms(1)
proof (induction indices arbitrary: b)
  case Nil
  show ?case by simp
next
  case (Cons i indices)
  have i: "i < length (concat cs)"
    using Cons.prems by simp
  obtain c j where loc: "locate cs i = Some (c, j)" and cj: "c ! j = concat cs ! i"
    using locate_concat [OF i] by blast
  have rest: "permute_loop nl cs b' indices = Inr (b' @ map (\<lambda>i. concat cs ! i) indices)" for b'
    using Cons by simp
  show ?case
  proof (cases "concat cs ! i")
    case None
    then have nl: "nl"
      using assms(2) i nth_mem [OF i] by auto
    have "permute_loop True cs (b @ [None]) indices
          = Inr ((b @ [None]) @ map (\<lambda>i. concat cs ! i) indices)"
      using rest [of "b @ [None]"] nl by simp
    then show ?thesis
      using loc cj None nl by simp
  next
    case (Some v)
    have "permute_loop nl cs (b @ [Some v]) indices
          = Inr ((b @ [Some v]) @ map (\<lambda>i. concat cs ! i) indices)"
      by (rule rest)
    then show ?thesis
      using loc cj Some by (cases nl) simp_all
  qed
qed

lemma count_nulls_0: "count_nulls cs = 0 \<Longrightarrow> None \<notin> set (concat cs)"
  by (auto simp: count_nulls_def filter_empty_conv)

lemma permute_loop_column:
  assumes "\<forall>i \<in> set indices. i < length (concat cs)"
  shows "permute_loop (count_nulls cs \<noteq> 0) cs [] indices = Inr (map (\<lambda>i. concat cs ! i) indices)"
  using permute_loop_eq [OF assms, of "count_nulls cs \<noteq> 0" "[]"] count_nulls_0 [of cs]
  by auto

lemma permuteInner_column_cells:
  assumes "\<forall>i \<in> set indices. i < column_length col"
  shows "\<exists>col'. permuteInner_column col indices = Inr col' \<and> field col' = field col
            \<and> cells (data col') = map (\<lambda>i. cells (data col) ! i) indices"
proof (cases "data col")
  case (Int64Chunks cs)
  then show ?thesis
    using assms permute_loop_column [of indices cs]
    by (simp add: permuteInner_column_def permuteInnerToArray_def column_length_def)
next
  case (DoubleChunks cs)
  then show ?thesis
    using assms permute_loop_column [of indices cs]
    by (simp add: permuteInner_column_def permuteInnerToArray_def column_length_def)
next
  case (StringChunks cs)
  then show ?thesis
    using assms permute_loop_column [of indices cs]
    by (simp add: permuteInner_column_def permuteInnerToArray_def column_length_def)
qed

lemma length_cells: "length (cells d) = chunked_length d"
  by (cases d) simp_all

lemma permuteInner_columns_cells:
  assumes "\<forall>col \<in> set cols. \<forall>i \<in> set indices. i < column_length col"
  shows "\<exists>cols'. permuteInner_columns cols indices = Inr cols' \<and> length cols' = length cols
            \<and> (\<forall>c < length cols. field (cols' ! c) = field (cols ! c)
                  \<and> cells (data (cols' ! c)) = map (\<lambda>i. cells (data (cols ! c)) ! i) indices)"
  using assms
proof (induction cols)
  case Nil
  show ?case by simp
next
  case (Cons col cols)
  obtain col' where col': "permuteInner_column col indices = Inr col'" "field col' = field col"
      "cells (data col') = map (\<lambda>i. cells (data col) ! i) indices"
    using permuteInner_column_cells [of indices col] Cons.prems by auto
  obtain cols' where cols': "permuteInner_columns cols indices = Inr cols'"
      "length cols' = length cols"
      "\<forall>c < length cols. field (cols' ! c) = field (cols ! c)
          \<and> cells (data (cols' ! c)) = map (\<lambda>i. cells (data (cols ! c)) ! i) indices"
    using Cons by auto
  have "\<forall>c < length (col # cols). field ((col' # cols') ! c) = field ((col # cols) ! c)
          \<and> cells (data ((col' # cols') ! c)) = map (\<lambda>i. cells (data ((col # cols) ! c)) ! i) indices"
  proof (intro allI impI)
    fix c assume "c < length (col # cols)"
    then show "field ((col' # cols') ! c) = field ((col # cols) ! c)
          \<and> cells (data ((col' # cols') ! c)) = map (\<lambda>i. cells (data ((col # cols) ! c)) ! i) indices"
      using col'(2,3) cols'(3) by (cases c) simp_all
  qed
  then show ?case
    using col'(1) cols'(1,2) by simp
qed

lemma isPermuteId_from_iff: "isPermuteId_from i xs \<longleftrightarrow> xs = [i..<i + length xs]"
proof (induction xs arbitrary: i)
  case Nil
  show ?case by simp
next
  case (Cons x xs)
  have "[i..<i + length (x # xs)] = i # [Suc i..<Suc i + length xs]"
    by (subst upt_rec) simp
  then show ?case
    using Cons.IH [of "Suc i"] by auto
qed

lemma isPermuteId_iff: "isPermuteId xs \<longleftrightarrow> xs = [0..<length xs]"
  by (simp add: isPermuteId_def isPermuteId_from_iff)

text \<open>
  C2. For a table \<open>t\<close> whose columns all have \<open>n\<close> rows and a permutation \<open>P\<close> that is a
  bijection on \<open>[0, n)\<close>, \<open>permute\<close> returns a table with the schema and the column fields
  of \<open>t\<close> in which, for every column, row \<open>i\<close> is row \<open>P[i]\<close> of \<open>t\<close>. When \<open>P\<close> is the
  identity the result is the input table itself (nothing is built), and in either case the
  table that the copying path \<open>permuteInner\<close> builds has the same cells as the result.
\<close>

theorem permute_rows:
  assumes rows: "table_rows t n"
    and bij: "mset P = mset [0..<n]"
  shows "\<exists>t'. permute_table t P = Inr t' \<and> schema t' = schema t
           \<and> length (columns t') = length (columns t)
           \<and> (\<forall>c < length (columns t). field (columns t' ! c) = field (columns t ! c)
                 \<and> (\<forall>i < n. cells (data (columns t' ! c)) ! i = cells (data (columns t ! c)) ! (P ! i)))
           \<and> (P = iotaVector n \<longrightarrow> t' = t)
           \<and> (\<exists>t''. permuteInner_table t P = Inr t'' \<and> schema t'' = schema t'
                 \<and> length (columns t'') = length (columns t')
                 \<and> (\<forall>c < length (columns t'). field (columns t'' ! c) = field (columns t' ! c)
                       \<and> cells (data (columns t'' ! c)) = cells (data (columns t' ! c))))"
proof -
  have setP: "set P = {0..<n}" and lenP: "length P = n"
    using bij by (metis set_mset_mset set_upt, metis size_mset length_upt diff_zero)
  have len: "length (cells (data col)) = n" if "col \<in> set (columns t)" for col
    using rows that by (simp add: table_rows_def list_all_iff length_cells column_length_def)
  have "\<forall>col \<in> set (columns t). \<forall>i \<in> set P. i < column_length col"
    using rows setP by (simp add: table_rows_def list_all_iff)
  then obtain cols' where cols': "permuteInner_columns (columns t) P = Inr cols'"
      "length cols' = length (columns t)"
      "\<forall>c < length (columns t). field (cols' ! c) = field (columns t ! c)
          \<and> cells (data (cols' ! c)) = map (\<lambda>i. cells (data (columns t ! c)) ! i) P"
    using permuteInner_columns_cells [of "columns t" P] by blast
  define t'' where "t'' = \<lparr>schema = schema t, columns = cols'\<rparr>"
  have inner: "permuteInner_table t P = Inr t''"
    using cols'(1) by (simp add: permuteInner_table_def t''_def)
  have rows'': "cells (data (columns t'' ! c)) ! i = cells (data (columns t ! c)) ! (P ! i)"
    if "c < length (columns t)" "i < n" for c i
    using cols'(3) that lenP by (simp add: t''_def)
  have same: "cells (data (columns t'' ! c)) = cells (data (columns t ! c))"
    if "c < length (columns t)" "P = iotaVector n" for c
  proof -
    have "length (cells (data (columns t ! c))) = n"
      using len that(1) by simp
    then have "map (\<lambda>i. cells (data (columns t ! c)) ! i) [0..<n] = cells (data (columns t ! c))"
      using map_nth [of "cells (data (columns t ! c))"] by simp
    then show ?thesis
      using cols'(3) that by (simp add: t''_def iotaVector_def)
  qed
  show ?thesis
  proof (cases "isPermuteId P")
    case True
    then have P: "P = iotaVector n"
      using lenP by (simp add: isPermuteId_iff iotaVector_def)
    have res: "permute_table t P = Inr t"
      using True by (simp add: permute_table_def)
    have "\<forall>c < length (columns t). field (columns t ! c) = field (columns t ! c)
            \<and> (\<forall>i < n. cells (data (columns t ! c)) ! i = cells (data (columns t ! c)) ! (P ! i))"
      using P by (simp add: iotaVector_def)
    moreover have "\<exists>t''. permuteInner_table t P = Inr t'' \<and> schema t'' = schema t
                 \<and> length (columns t'') = length (columns t)
                 \<and> (\<forall>c < length (columns t). field (columns t'' ! c) = field (columns t ! c)
                       \<and> cells (data (columns t'' ! c)) = cells (data (columns t ! c)))"
      using inner cols'(2,3) same P by (intro exI [of _ t'']) (simp add: t''_def)
    ultimately show ?thesis
      using res by simp
  next
    case False
    then have notid: "P \<noteq> iotaVector n"
      using lenP by (auto simp: isPermuteId_iff iotaVector_def)
    have res: "permute_table t P = Inr t''"
      using False inner by (simp add: permute_table_def)
    have "\<forall>c < length (columns t). field (columns t'' ! c) = field (columns t ! c)
            \<and> (\<forall>i < n. cells (data (columns t'' ! c)) ! i = cells (data (columns t ! c)) ! (P ! i))"
      using rows'' cols'(3) by (simp add: t''_def)
    moreover have "\<exists>u. permuteInner_table t P = Inr u \<and> schema u = schema t''
                 \<and> length (columns u) = length (columns t'')
                 \<and> (\<forall>c < length (columns t''). field (columns u ! c) = field (columns t'' ! c)
                       \<and> cells (data (columns u ! c)) = cells (data (columns t'' ! c)))"
      using inner by (intro exI [of _ t'']) simp
    moreover have "schema t'' = schema t" "length (columns t'') = length (columns t)"
      using cols'(2) by (simp_all add: t''_def)
    ultimately show ?thesis
      using res notid by (intro exI [of _ t'']) simp
  qed
qed

theorem permute_rows_witness:
  "table_rows exTable 3 \<and> mset [2, 0, 1] = mset [0..<3]
   \<and> (\<exists>t'. permute_table exTable [2, 0, 1] = Inr t' \<and> schema t' = schema exTable
           \<and> length (columns t') = length (columns exTable)
           \<and> (\<forall>c < length (columns exTable). field (columns t' ! c) = field (columns exTable ! c)
                 \<and> (\<forall>i < 3. cells (data (columns t' ! c)) ! i
                        = cells (data (columns exTable ! c)) ! ([2, 0, 1] ! i)))
           \<and> ([2, 0, 1] = iotaVector 3 \<longrightarrow> t' = exTable)
           \<and> (\<exists>t''. permuteInner_table exTable [2, 0, 1] = Inr t'' \<and> schema t'' = schema t'
                 \<and> length (columns t'') = length (columns t')
                 \<and> (\<forall>c < length (columns t'). field (columns t'' ! c) = field (columns t' ! c)
                       \<and> cells (data (columns t'' ! c)) = cells (data (columns t' ! c)))))"
proof -
  have h1: "table_rows exTable 3"
    by (simp add: table_rows_def exTable_def exA_def exB_def exN_def column_length_def)
  have h2: "mset [2, 0, 1] = mset [0..<3::nat]"
    by (simp add: upt_rec)
  show ?thesis
    using h1 h2 permute_rows [OF h1 h2] by (intro conjI)
qed

lemma permute_example: "permute_table exTable [2, 0, 1] = Inr
   \<lparr>schema = [''A'', ''B'', ''N''],
    columns = [\<lparr>field = ''A'', data = Int64Chunks [[Some 0, Some 1, Some 1]]\<rparr>,
               \<lparr>field = ''B'', data = Int64Chunks [[Some 5, Some 2, Some 1]]\<rparr>,
               \<lparr>field = ''N'', data = Int64Chunks [[Some 3, Some 7, None]]\<rparr>]\<rparr>"
  by code_simp

section \<open>Null placement\<close>





























lemma null_placement_example:
  "sortedCells exKeyN = [Some (Int64Cell 7), Some (Int64Cell 3), None]"
  "sortedCells (exKeyN\<lparr>order := Ascending\<rparr>) = [Some (Int64Cell 3), Some (Int64Cell 7), None]"
  "sortedCells (exKeyN\<lparr>nulls := Before\<rparr>) = [None, Some (Int64Cell 7), Some (Int64Cell 3)]"
  "sortedCells (exKeyN\<lparr>order := Ascending, nulls := Before\<rparr>)
     = [None, Some (Int64Cell 3), Some (Int64Cell 7)]"
  "sortedCells (exKeyZeros\<lparr>order := Ascending\<rparr>)
     = [None, Some (DoubleCell NegInf), Some (DoubleCell (Num 0)), Some (DoubleCell NegZero),
        Some (DoubleCell (Num 2))]"
  by code_simp+


section \<open>Properties of the interpreter\<close>

lemma exec_rows_map:
  assumes "\<forall>i \<in> set rows. \<exists>l r. getValue lhs i = Inr l \<and> getValue rhs i = Inr r \<and> krn l r = Inr (h i)"
  shows "exec_rows krn lhs rhs rows = Inr (map h rows)"
  using assms
proof (induction rows)
  case Nil
  show ?case by simp
next
  case (Cons i rows)
  obtain l r where "getValue lhs i = Inr l" "getValue rhs i = Inr r" "krn l r = Inr (h i)"
    using Cons.prems by auto
  moreover have "exec_rows krn lhs rhs rows = Inr (map h rows)"
    using Cons by simp
  ultimately show ?case by simp
qed

lemma map_nth_upt: "map (\<lambda>i. F (xs ! i)) [0..<length xs] = map F xs"
  by (rule nth_equalityI) simp_all

lemma map_filter_int64: "List.map_filter int64_of (map (\<lambda>i. Int64Cell (f i)) rows) = map f rows"
  by (induction rows) (simp_all add: List.map_filter_simps)

lemma map_filter_double: "List.map_filter double_of (map (\<lambda>i. DoubleCell (f i)) rows) = map f rows"
  by (induction rows) (simp_all add: List.map_filter_simps)

lemma exec_Plus_int64_array_scalar:
  "exec_Plus m (ArrayInt64 xs) (ScalarInt64 y) (length xs) = Inr (ArrayInt64 (map (\<lambda>x. x + y) xs))"
proof -
  have "exec_rows (Plus_exec m) (ArrayInt64 xs) (ScalarInt64 y) [0..<length xs]
        = Inr (map (\<lambda>i. Int64Cell (xs ! i + y)) [0..<length xs])"
    by (rule exec_rows_map) simp
  then show ?thesis
    using map_nth_upt [of "\<lambda>x. x + y" xs]
    by (simp add: exec_Plus_def map_filter_int64)
qed

lemma exec_Plus_int64_scalar_array:
  "exec_Plus m (ScalarInt64 y) (ArrayInt64 xs) (length xs) = Inr (ArrayInt64 (map (\<lambda>x. y + x) xs))"
proof -
  have "exec_rows (Plus_exec m) (ScalarInt64 y) (ArrayInt64 xs) [0..<length xs]
        = Inr (map (\<lambda>i. Int64Cell (y + xs ! i)) [0..<length xs])"
    by (rule exec_rows_map) simp
  then show ?thesis
    using map_nth_upt [of "\<lambda>x. y + x" xs]
    by (simp add: exec_Plus_def map_filter_int64)
qed

lemma exec_Plus_double_array_scalar:
  "exec_Plus m (ArrayDouble xs) (ScalarDouble y) (length xs)
   = Inr (ArrayDouble (map (\<lambda>x. addDouble m x y) xs))"
proof -
  have "exec_rows (Plus_exec m) (ArrayDouble xs) (ScalarDouble y) [0..<length xs]
        = Inr (map (\<lambda>i. DoubleCell (addDouble m (xs ! i) y)) [0..<length xs])"
    by (rule exec_rows_map) simp
  then show ?thesis
    using map_nth_upt [of "\<lambda>x. addDouble m x y" xs]
    by (simp add: exec_Plus_def map_filter_double)
qed

lemma exec_Plus_double_scalar_array:
  "exec_Plus m (ScalarDouble y) (ArrayDouble xs) (length xs)
   = Inr (ArrayDouble (map (\<lambda>x. addDouble m y x) xs))"
proof -
  have "exec_rows (Plus_exec m) (ScalarDouble y) (ArrayDouble xs) [0..<length xs]
        = Inr (map (\<lambda>i. DoubleCell (addDouble m y (xs ! i))) [0..<length xs])"
    by (rule exec_rows_map) simp
  then show ?thesis
    using map_nth_upt [of "\<lambda>x. addDouble m y x" xs]
    by (simp add: exec_Plus_def map_filter_double)
qed

lemma exec_Comparison_int64_array_scalar:
  "exec_Comparison cmp (ArrayInt64 xs) (ScalarInt64 y) (length xs)
   = Inr (map (\<lambda>x. toByte (same_type_compare cmp (Int64Cell x) (Int64Cell y))) xs)"
proof -
  have "exec_rows (Comparison_exec cmp) (ArrayInt64 xs) (ScalarInt64 y) [0..<length xs]
        = Inr (map (\<lambda>i. same_type_compare cmp (Int64Cell (xs ! i)) (Int64Cell y)) [0..<length xs])"
    by (rule exec_rows_map) (simp add: Comparison_exec_def)
  then show ?thesis
    using map_nth_upt [of "\<lambda>x. toByte (same_type_compare cmp (Int64Cell x) (Int64Cell y))" xs]
    by (simp add: exec_Comparison_def comp_def)
qed

lemma exec_Comparison_int64_scalar_array:
  "exec_Comparison cmp (ScalarInt64 y) (ArrayInt64 xs) (length xs)
   = Inr (map (\<lambda>x. toByte (same_type_compare cmp (Int64Cell y) (Int64Cell x))) xs)"
proof -
  have "exec_rows (Comparison_exec cmp) (ScalarInt64 y) (ArrayInt64 xs) [0..<length xs]
        = Inr (map (\<lambda>i. same_type_compare cmp (Int64Cell y) (Int64Cell (xs ! i))) [0..<length xs])"
    by (rule exec_rows_map) (simp add: Comparison_exec_def)
  then show ?thesis
    using map_nth_upt [of "\<lambda>x. toByte (same_type_compare cmp (Int64Cell y) (Int64Cell x))" xs]
    by (simp add: exec_Comparison_def comp_def)
qed

lemma exec_Comparison_double_array_scalar:
  "exec_Comparison cmp (ArrayDouble xs) (ScalarDouble y) (length xs)
   = Inr (map (\<lambda>x. toByte (same_type_compare cmp (DoubleCell x) (DoubleCell y))) xs)"
proof -
  have "exec_rows (Comparison_exec cmp) (ArrayDouble xs) (ScalarDouble y) [0..<length xs]
        = Inr (map (\<lambda>i. same_type_compare cmp (DoubleCell (xs ! i)) (DoubleCell y)) [0..<length xs])"
    by (rule exec_rows_map) (simp add: Comparison_exec_def)
  then show ?thesis
    using map_nth_upt [of "\<lambda>x. toByte (same_type_compare cmp (DoubleCell x) (DoubleCell y))" xs]
    by (simp add: exec_Comparison_def comp_def)
qed

lemma exec_Comparison_double_scalar_array:
  "exec_Comparison cmp (ScalarDouble y) (ArrayDouble xs) (length xs)
   = Inr (map (\<lambda>x. toByte (same_type_compare cmp (DoubleCell y) (DoubleCell x))) xs)"
proof -
  have "exec_rows (Comparison_exec cmp) (ScalarDouble y) (ArrayDouble xs) [0..<length xs]
        = Inr (map (\<lambda>i. same_type_compare cmp (DoubleCell y) (DoubleCell (xs ! i))) [0..<length xs])"
    by (rule exec_rows_map) (simp add: Comparison_exec_def)
  then show ?thesis
    using map_nth_upt [of "\<lambda>x. toByte (same_type_compare cmp (DoubleCell y) (DoubleCell x))" xs]
    by (simp add: exec_Comparison_def comp_def)
qed

lemma value_operator_default:
  assumes "what \<noteq> Plus"
    and "evaluateValue m I e = Inr lhs" and "evaluateValue m I f = Inr rhs"
  shows "evaluateValue m I (ValueOperation what e f) = Inl (NotImplementedValueOperator what)"
  using assms by (cases what) simp_all

text \<open>
  C4, as amended. \<open>Plus\<close> is the only \<open>ValueOperation\<close> that \<open>evaluateValue\<close> implements.
  When one operand of \<open>Plus\<close> or of a comparison evaluates to an array with one element
  per table row and the other to a scalar of the same element type (\<open>int64\<close> or \<open>double\<close>),
  the scalar broadcasts: the result has one element per row, the operator applied to the array
  element of that row and the scalar, on whichever side the scalar stands. A comparison gives
  one byte per row, 1 for true and 0 for false. A \<open>ValueOperation\<close> with any operator other
  than \<open>Plus\<close> whose two operands evaluate fails with "not implemented: value operator".
\<close>

theorem scalar_broadcast:
  assumes a: "evaluateValue m I a = Inr (ArrayInt64 xs)"
    and b: "evaluateValue m I b = Inr (ScalarInt64 y)"
    and n: "length xs = num_rows (table I)"
    and c: "evaluateValue m I c = Inr (ArrayDouble us)"
    and d: "evaluateValue m I d = Inr (ScalarDouble v)"
    and n': "length us = num_rows (table I)"
  shows "evaluateValue m I (ValueOperation Plus a b) = Inr (ArrayInt64 (map (\<lambda>x. x + y) xs))
       \<and> evaluateValue m I (ValueOperation Plus b a) = Inr (ArrayInt64 (map (\<lambda>x. y + x) xs))
       \<and> evaluate m I (PredicateFromValueOperation Greater a b) = Inr (map (\<lambda>x. toByte (y <s x)) xs)
       \<and> evaluate m I (PredicateFromValueOperation Greater b a) = Inr (map (\<lambda>x. toByte (x <s y)) xs)
       \<and> evaluate m I (PredicateFromValueOperation Lesser a b) = Inr (map (\<lambda>x. toByte (x <s y)) xs)
       \<and> evaluate m I (PredicateFromValueOperation Lesser b a) = Inr (map (\<lambda>x. toByte (y <s x)) xs)
       \<and> evaluate m I (PredicateFromValueOperation Equal a b) = Inr (map (\<lambda>x. toByte (x = y)) xs)
       \<and> evaluate m I (PredicateFromValueOperation Equal b a) = Inr (map (\<lambda>x. toByte (y = x)) xs)
       \<and> evaluateValue m I (ValueOperation Plus c d) = Inr (ArrayDouble (map (\<lambda>u. addDouble m u v) us))
       \<and> evaluateValue m I (ValueOperation Plus d c) = Inr (ArrayDouble (map (\<lambda>u. addDouble m v u) us))
       \<and> evaluate m I (PredicateFromValueOperation Greater c d) = Inr (map (\<lambda>u. toByte (dless v u)) us)
       \<and> evaluate m I (PredicateFromValueOperation Greater d c) = Inr (map (\<lambda>u. toByte (dless u v)) us)
       \<and> evaluate m I (PredicateFromValueOperation Lesser c d) = Inr (map (\<lambda>u. toByte (dless u v)) us)
       \<and> evaluate m I (PredicateFromValueOperation Lesser d c) = Inr (map (\<lambda>u. toByte (dless v u)) us)
       \<and> evaluate m I (PredicateFromValueOperation Equal c d) = Inr (map (\<lambda>u. toByte (deq u v)) us)
       \<and> evaluate m I (PredicateFromValueOperation Equal d c) = Inr (map (\<lambda>u. toByte (deq v u)) us)
       \<and> (\<forall>what e f lhs rhs.
             what \<noteq> Plus \<and> evaluateValue m I e = Inr lhs \<and> evaluateValue m I f = Inr rhs
             \<longrightarrow> evaluateValue m I (ValueOperation what e f) = Inl (NotImplementedValueOperator what))"
proof -
  have i1: "exec_Plus m (ArrayInt64 xs) (ScalarInt64 y) (num_rows (table I))
            = Inr (ArrayInt64 (map (\<lambda>x. x + y) xs))"
    using exec_Plus_int64_array_scalar [of m xs y] n by simp
  have i2: "exec_Plus m (ScalarInt64 y) (ArrayInt64 xs) (num_rows (table I))
            = Inr (ArrayInt64 (map (\<lambda>x. y + x) xs))"
    using exec_Plus_int64_scalar_array [of m y xs] n by simp
  have i3: "exec_Comparison cmp (ArrayInt64 xs) (ScalarInt64 y) (num_rows (table I))
            = Inr (map (\<lambda>x. toByte (same_type_compare cmp (Int64Cell x) (Int64Cell y))) xs)" for cmp
    using exec_Comparison_int64_array_scalar [of cmp xs y] n by simp
  have i4: "exec_Comparison cmp (ScalarInt64 y) (ArrayInt64 xs) (num_rows (table I))
            = Inr (map (\<lambda>x. toByte (same_type_compare cmp (Int64Cell y) (Int64Cell x))) xs)" for cmp
    using exec_Comparison_int64_scalar_array [of cmp y xs] n by simp
  have d1: "exec_Plus m (ArrayDouble us) (ScalarDouble v) (num_rows (table I))
            = Inr (ArrayDouble (map (\<lambda>u. addDouble m u v) us))"
    using exec_Plus_double_array_scalar [of m us v] n' by simp
  have d2: "exec_Plus m (ScalarDouble v) (ArrayDouble us) (num_rows (table I))
            = Inr (ArrayDouble (map (\<lambda>u. addDouble m v u) us))"
    using exec_Plus_double_scalar_array [of m v us] n' by simp
  have d3: "exec_Comparison cmp (ArrayDouble us) (ScalarDouble v) (num_rows (table I))
            = Inr (map (\<lambda>u. toByte (same_type_compare cmp (DoubleCell u) (DoubleCell v))) us)" for cmp
    using exec_Comparison_double_array_scalar [of cmp us v] n' by simp
  have d4: "exec_Comparison cmp (ScalarDouble v) (ArrayDouble us) (num_rows (table I))
            = Inr (map (\<lambda>u. toByte (same_type_compare cmp (DoubleCell v) (DoubleCell u))) us)" for cmp
    using exec_Comparison_double_scalar_array [of cmp v us] n' by simp
  have other: "\<forall>what e f lhs rhs.
             what \<noteq> Plus \<and> evaluateValue m I e = Inr lhs \<and> evaluateValue m I f = Inr rhs
             \<longrightarrow> evaluateValue m I (ValueOperation what e f) = Inl (NotImplementedValueOperator what)"
    using value_operator_default by blast
  show ?thesis
    using other by (simp add: a b c d i1 i2 i3 i4 d1 d2 d3 d4)
qed

text \<open>
  The column \<open>[1, 2, 3]\<close> plus the literal 10 is \<open>[11, 12, 13]\<close>, the column compared
  with \<open>> 2\<close> is the mask \<open>[0, 0, 1]\<close>, the column of doubles \<open>[1.0, 2.0, 3.0]\<close> compared
  with \<open>< 2.0\<close> is the mask \<open>[1, 0, 0]\<close>, and the column times the literal 10 is not
  implemented.
\<close>

theorem scalar_broadcast_witness:
  "evaluateValue exMachine exInterpreter (ValueOperation Plus (ColumnReference 0) (LiteralInt64 10))
     = Inr (ArrayInt64 [11, 12, 13])
   \<and> evaluate exMachine exInterpreter
        (PredicateFromValueOperation Greater (ColumnReference 0) (LiteralInt64 2)) = Inr [0, 0, 1]
   \<and> evaluate exMachine exInterpreter
        (PredicateFromValueOperation Lesser (ColumnReference 1) (LiteralDouble (Num 2))) = Inr [1, 0, 0]
   \<and> evaluateValue exMachine exInterpreter (ValueOperation Times (ColumnReference 0) (LiteralInt64 10))
     = Inl (NotImplementedValueOperator Times)"
proof -
  have col: "evaluateValue exMachine exInterpreter (ColumnReference 0) = Inr (ArrayInt64 [1, 2, 3])"
    by code_simp
  have dcol: "evaluateValue exMachine exInterpreter (ColumnReference 1)
              = Inr (ArrayDouble [Num 1, Num 2, Num 3])"
    by code_simp
  have rows: "length [1, 2, 3 :: int64] = num_rows (table exInterpreter)"
      "length [Num 1, Num 2, Num 3] = num_rows (table exInterpreter)"
    by (simp_all add: exInterpreter_def num_rows_def exC_def column_length_def)
  have lit: "evaluateValue exMachine exInterpreter (LiteralInt64 l) = Inr (ScalarInt64 l)"
      "evaluateValue exMachine exInterpreter (LiteralDouble (Num 2)) = Inr (ScalarDouble (Num 2))" for l
    by simp_all
  note ten = scalar_broadcast [OF col lit(1) rows(1) dcol lit(2) rows(2), of 10]
  note two = scalar_broadcast [OF col lit(1) rows(1) dcol lit(2) rows(2), of 2]
  have plus: "evaluateValue exMachine exInterpreter
        (ValueOperation Plus (ColumnReference 0) (LiteralInt64 10)) = Inr (ArrayInt64 [11, 12, 13])"
    using ten by simp
  have greater: "evaluate exMachine exInterpreter
        (PredicateFromValueOperation Greater (ColumnReference 0) (LiteralInt64 2)) = Inr [0, 0, 1]"
    using two by (simp add: toByte_def word_sless_alt)
  have lesser: "evaluate exMachine exInterpreter
        (PredicateFromValueOperation Lesser (ColumnReference 1) (LiteralDouble (Num 2))) = Inr [1, 0, 0]"
    using two by (simp add: toByte_def)
  have "\<forall>what e f lhs rhs.
          what \<noteq> Plus \<and> evaluateValue exMachine exInterpreter e = Inr lhs
            \<and> evaluateValue exMachine exInterpreter f = Inr rhs
          \<longrightarrow> evaluateValue exMachine exInterpreter (ValueOperation what e f)
                = Inl (NotImplementedValueOperator what)"
    using ten by (elim conjE)
  then have times: "evaluateValue exMachine exInterpreter
        (ValueOperation Times (ColumnReference 0) (LiteralInt64 10)) = Inl (NotImplementedValueOperator Times)"
    using col lit(1) [of 10] by blast
  show ?thesis
    using plus greater lesser times by (intro conjI)
qed

text \<open>
  C4 as stated fails for the other value operators: \<open>Minus\<close> on the column \<open>[1, 2, 3]\<close> and
  the literal 10 does not broadcast, it fails with "not implemented: value operator".
\<close>

theorem value_operator_not_implemented:
  "evaluateValue exMachine exInterpreter
     (ValueOperation Minus (ColumnReference 0) (LiteralInt64 10))
     = Inl (NotImplementedValueOperator Minus)"
  by (simp add: exInterpreter_def exC_def fieldFromColumn_def)






text \<open>
  C8. \<open>evaluate\<close> on a \<open>PredicateOperation\<close> node fails with "not implemented:
  PredicateOperation", whatever the combinator and the operands; a predicate that evaluates to
  a mask is a comparison of two values.
\<close>

theorem predicate_operation_unimplemented:
  "evaluate m I (PredicateOperation what operands) = Inl NotImplementedPredicateOperation
   \<and> (evaluate m I p = Inr bytes \<longrightarrow>
        (\<exists>what' operand0 operand1. p = PredicateFromValueOperation what' operand0 operand1))"
  by (cases p) simp_all

theorem predicate_operation_unimplemented_witness:
  "evaluate exMachine exInterpreter (PredicateOperation And
       [PredicateFromValueOperation Greater (ColumnReference 0) (LiteralInt64 2),
        PredicateFromValueOperation Lesser (ColumnReference 0) (LiteralInt64 3)])
     = Inl NotImplementedPredicateOperation
   \<and> evaluate exMachine exInterpreter
        (PredicateFromValueOperation Equal (ColumnReference 0) (LiteralInt64 2)) = Inr [0, 1, 0]
   \<and> (\<exists>what' operand0 operand1.
         PredicateFromValueOperation Equal (ColumnReference 0) (LiteralInt64 2)
           = PredicateFromValueOperation what' operand0 operand1)"
proof -
  have leaf: "evaluate exMachine exInterpreter
        (PredicateFromValueOperation Equal (ColumnReference 0) (LiteralInt64 2)) = Inr [0, 1, 0]"
    by code_simp
  show ?thesis
    using leaf predicate_operation_unimplemented [of exMachine exInterpreter And
        "[PredicateFromValueOperation Greater (ColumnReference 0) (LiteralInt64 2),
          PredicateFromValueOperation Lesser (ColumnReference 0) (LiteralInt64 3)]"
        "PredicateFromValueOperation Equal (ColumnReference 0) (LiteralInt64 2)" "[0, 1, 0]"]
    by simp
qed

lemma getValue_covers:
  "coversRows n f \<Longrightarrow> i < n \<Longrightarrow> fieldElemType f \<noteq> StringT \<Longrightarrow>
     \<exists>c. getValue f i = Inr c \<and> elemType c = fieldElemType f"
  by (cases f) simp_all

lemma Plus_exec_mismatch:
  "elemType l \<noteq> elemType r \<Longrightarrow> Plus_exec m l r = Inl (NotSupportedOperandTypes (elemType l) (elemType r))"
  by (cases l; cases r) simp_all

lemma exec_rows_mismatch:
  assumes "coversRows n lhs" "coversRows n rhs" "0 < n"
    and "fieldElemType lhs \<noteq> fieldElemType rhs"
    and "\<And>l r. elemType l \<noteq> elemType r \<Longrightarrow> krn l r = Inl (NotSupportedOperandTypes (elemType l) (elemType r))"
    and "fieldElemType lhs \<noteq> StringT" "fieldElemType rhs \<noteq> StringT"
  shows "exec_rows krn lhs rhs [0..<n] = Inl (NotSupportedOperandTypes (fieldElemType lhs) (fieldElemType rhs))"
proof -
  obtain l where l: "getValue lhs 0 = Inr l" "elemType l = fieldElemType lhs"
    using getValue_covers [OF assms(1,3,6)] by blast
  obtain r where r: "getValue rhs 0 = Inr r" "elemType r = fieldElemType rhs"
    using getValue_covers [OF assms(2,3,7)] by blast
  have "krn l r = Inl (NotSupportedOperandTypes (fieldElemType lhs) (fieldElemType rhs))"
    using assms(4) assms(5) [of l r] l(2) r(2) by simp
  moreover have "[0..<n] = 0 # [1..<n]"
    using assms(3) by (simp add: upt_conv_Cons)
  ultimately show ?thesis
    using l(1) r(1) by simp
qed

text \<open>
  C6, as amended. On a table with at least one row, \<open>Plus\<close> and the three comparisons fail
  with the type error when their operands are an \<open>int64\<close> and a \<open>double\<close>, in either
  order, arrays or scalars; the error names the element type of the left and of the right
  operand, and nothing else. An array of strings is left out: no element of it can be read.
\<close>

theorem type_mismatch_error:
  assumes lhs: "evaluateValue m I operand0 = Inr lhs"
    and rhs: "evaluateValue m I operand1 = Inr rhs"
    and differ: "fieldElemType lhs \<noteq> fieldElemType rhs"
    and rows: "0 < num_rows (table I)"
    and cl: "coversRows (num_rows (table I)) lhs"
    and cr: "coversRows (num_rows (table I)) rhs"
    and nl: "fieldElemType lhs \<noteq> StringT"
    and nr: "fieldElemType rhs \<noteq> StringT"
  shows "evaluateValue m I (ValueOperation Plus operand0 operand1)
           = Inl (NotSupportedOperandTypes (fieldElemType lhs) (fieldElemType rhs))
       \<and> evaluate m I (PredicateFromValueOperation Greater operand0 operand1)
           = Inl (NotSupportedOperandTypes (fieldElemType lhs) (fieldElemType rhs))
       \<and> evaluate m I (PredicateFromValueOperation Lesser operand0 operand1)
           = Inl (NotSupportedOperandTypes (fieldElemType lhs) (fieldElemType rhs))
       \<and> evaluate m I (PredicateFromValueOperation Equal operand0 operand1)
           = Inl (NotSupportedOperandTypes (fieldElemType lhs) (fieldElemType rhs))"
proof -
  have plus: "exec_rows (Plus_exec m) lhs rhs [0..<num_rows (table I)]
              = Inl (NotSupportedOperandTypes (fieldElemType lhs) (fieldElemType rhs))"
    using cl cr rows differ Plus_exec_mismatch nl nr by (rule exec_rows_mismatch)
  have rel: "exec_rows (Comparison_exec cmp) lhs rhs [0..<num_rows (table I)]
              = Inl (NotSupportedOperandTypes (fieldElemType lhs) (fieldElemType rhs))" for cmp
    using cl cr rows differ _ nl nr by (rule exec_rows_mismatch) (simp add: Comparison_exec_def)
  show ?thesis
    using lhs rhs plus rel by (simp add: exec_Plus_def exec_Comparison_def)
qed

theorem type_mismatch_error_witness:
  "evaluateValue exMachine exInterpreter (ColumnReference 0) = Inr (ArrayInt64 [1, 2, 3])
   \<and> evaluateValue exMachine exInterpreter (LiteralDouble (Num 10)) = Inr (ScalarDouble (Num 10))
   \<and> fieldElemType (ArrayInt64 [1, 2, 3]) \<noteq> fieldElemType (ScalarDouble (Num 10))
   \<and> fieldElemType (ArrayInt64 [1, 2, 3]) \<noteq> StringT
   \<and> fieldElemType (ScalarDouble (Num 10)) \<noteq> StringT
   \<and> coversRows (num_rows (table exInterpreter)) (ArrayInt64 [1, 2, 3])
   \<and> coversRows (num_rows (table exInterpreter)) (ScalarDouble (Num 10))
   \<and> 0 < num_rows (table exInterpreter)
   \<and> evaluateValue exMachine exInterpreter
        (ValueOperation Plus (ColumnReference 0) (LiteralDouble (Num 10)))
        = Inl (NotSupportedOperandTypes Int64T DoubleT)
   \<and> evaluate exMachine exInterpreter
        (PredicateFromValueOperation Equal (ColumnReference 0) (LiteralDouble (Num 10)))
        = Inl (NotSupportedOperandTypes Int64T DoubleT)"
proof -
  have col: "evaluateValue exMachine exInterpreter (ColumnReference 0) = Inr (ArrayInt64 [1, 2, 3])"
    by code_simp
  have lit: "evaluateValue exMachine exInterpreter (LiteralDouble (Num 10)) = Inr (ScalarDouble (Num 10))"
    by simp
  have differ: "fieldElemType (ArrayInt64 [1, 2, 3]) \<noteq> fieldElemType (ScalarDouble (Num 10))"
    by simp
  have nl: "fieldElemType (ArrayInt64 [1, 2, 3]) \<noteq> StringT"
    by simp
  have nr: "fieldElemType (ScalarDouble (Num 10)) \<noteq> StringT"
    by simp
  have rows: "0 < num_rows (table exInterpreter)"
    by (simp add: exInterpreter_def num_rows_def exC_def column_length_def)
  have cl: "coversRows (num_rows (table exInterpreter)) (ArrayInt64 [1, 2, 3])"
    by (simp add: exInterpreter_def num_rows_def exC_def column_length_def)
  have cr: "coversRows (num_rows (table exInterpreter)) (ScalarDouble (Num 10))"
    by simp
  show ?thesis
    using col lit differ nl nr cl cr rows type_mismatch_error [OF col lit differ rows cl cr nl nr]
    by simp
qed

text \<open>
  C6 as stated fails: the error of \<open>Plus\<close> on an \<open>int64\<close> column and a \<open>double\<close> literal
  is the very error of \<open>Greater\<close> on the same operands, so it does not carry the operator.
\<close>

theorem type_mismatch_error_names_no_operator:
  "evaluateValue exMachine exInterpreter
     (ValueOperation Plus (ColumnReference 0) (LiteralDouble (Num 10)))
     = Inl (NotSupportedOperandTypes Int64T DoubleT)
   \<and> evaluate exMachine exInterpreter
        (PredicateFromValueOperation Greater (ColumnReference 0) (LiteralDouble (Num 10)))
        = Inl (NotSupportedOperandTypes Int64T DoubleT)"
  by code_simp

text \<open>
  The example of the specification, \<open>Plus\<close> on an array of strings and a numeric literal,
  on a table with rows: the column reference evaluates to the operand over the buffer of
  offsets, and the first row is the copy of a \<open>std::string\<close> out of that buffer. The type
  error is not reached.
\<close>

lemma string_operand_unreadable:
  "evaluateValue exMachine exStrings (ColumnReference 0)
     = Inr (ArrayString (OffsetsOf [Some ''a'', Some ''b'', Some ''c'']))
   \<and> evaluateValue exMachine exStrings (ValueOperation Plus (ColumnReference 0) (LiteralInt64 1))
       = Inl StringBufferRead"
  by code_simp

text \<open>
  C10 at a table without rows: the kernel that throws is never applied, and an \<open>int64\<close>
  column with a \<open>double\<close> literal evaluates to an empty array (\<open>Plus\<close>) and to an empty mask
  (\<open>Greater\<close>) instead of the type error.
\<close>

theorem type_mismatch_unreported_without_rows:
  "num_rows (table exEmpty) = 0
   \<and> evaluateValue exMachine exEmpty (ColumnReference 0) = Inr (ArrayInt64 [])
   \<and> evaluateValue exMachine exEmpty (ValueOperation Plus (ColumnReference 0) (LiteralDouble (Num 10)))
        = Inr (ArrayInt64 [])
   \<and> evaluate exMachine exEmpty
        (PredicateFromValueOperation Greater (ColumnReference 0) (LiteralDouble (Num 10))) = Inr []"
  by (simp add: exEmpty_def exE_def num_rows_def column_length_def fieldFromColumn_def
      valuesBuffer_def exec_Plus_def exec_Comparison_def List.map_filter_simps)

section \<open>Properties of the spreadsheet import\<close>

lemma addMissing_slot:
  "arrayCells (finish (addMissing d b)) = arrayCells (finish b) @ [importedSlot d (builderType b) None]
   \<and> builderType (addMissing d b) = builderType b"
  by (cases b) (simp_all add: importedSlot_def)

lemma addFromCell_slot:
  "arrayCells (finish (addFromCell d cell b))
     = arrayCells (finish b) @ [importedSlot d (builderType b) (Some cell)]
   \<and> builderType (addFromCell d cell b) = builderType b"
  by (cases b) (simp_all add: importedSlot_def)

lemma fill_column_slots:
  "arrayCells (finish (fill_column d sheet col rows b))
     = arrayCells (finish b)
         @ map (\<lambda>row. importedSlot d (builderType b) (cellAt sheet (col + 1, row + 1))) rows
   \<and> builderType (fill_column d sheet col rows b) = builderType b"
proof (induction rows arbitrary: b)
  case Nil
  show ?case by simp
next
  case (Cons row rows)
  show ?case
  proof (cases "cellAt sheet (col + 1, row + 1)")
    case None
    then show ?thesis
      using Cons [of "addMissing d b"] addMissing_slot [of d b] by simp
  next
    case (Some cell)
    then show ?thesis
      using Cons [of "addFromCell d cell b"] addFromCell_slot [of d cell b] by simp
  qed
qed

lemma fill_columns_nth:
  assumes "distinct cols" and "\<forall>c \<in> set cols. c < length bs"
  shows "length (fill_columns d sheet rows cols bs) = length bs
       \<and> (\<forall>c < length bs. fill_columns d sheet rows cols bs ! c
             = (if c \<in> set cols then fill_column d sheet c rows (bs ! c) else bs ! c))"
  using assms
proof (induction cols arbitrary: bs)
  case Nil
  show ?case by simp
next
  case (Cons col cols)
  define bs' where "bs' = bs[col := fill_column d sheet col rows (bs ! col)]"
  have len: "length bs' = length bs"
    by (simp add: bs'_def)
  have IH: "length (fill_columns d sheet rows cols bs') = length bs'
       \<and> (\<forall>c < length bs'. fill_columns d sheet rows cols bs' ! c
             = (if c \<in> set cols then fill_column d sheet c rows (bs' ! c) else bs' ! c))"
    using Cons.prems len by (intro Cons.IH) simp_all
  have "fill_columns d sheet rows (col # cols) bs ! c
        = (if c \<in> set (col # cols) then fill_column d sheet c rows (bs ! c) else bs ! c)"
    if c: "c < length bs" for c
  proof (cases "c = col")
    case True
    then have "c \<notin> set cols"
      using Cons.prems(1) by simp
    then show ?thesis
      using IH c len True by (simp add: bs'_def)
  next
    case False
    then have "bs' ! c = bs ! c"
      by (simp add: bs'_def)
    then show ?thesis
      using IH c len False by (simp add: bs'_def)
  qed
  then show ?case
    using IH len by (simp add: bs'_def)
qed

lemma makeBuilders_supported:
  assumes "list_all (\<lambda>t. typeId t \<noteq> OTHER) ts"
  shows "\<exists>bs. makeBuilders ts = Inr bs \<and> length bs = length ts
           \<and> (\<forall>i < length ts. builderType (bs ! i) = ts ! i \<and> arrayCells (finish (bs ! i)) = [])"
  using assms
proof (induction ts)
  case Nil
  show ?case by simp
next
  case (Cons t ts)
  obtain bs where bs: "makeBuilders ts = Inr bs" "length bs = length ts"
      "\<forall>i < length ts. builderType (bs ! i) = ts ! i \<and> arrayCells (finish (bs ! i)) = []"
    using Cons by auto
  obtain b where b: "makeBuilder t = Inr b" "builderType b = t" "arrayCells (finish b) = []"
    using Cons.prems by (cases "typeId t") simp_all
  have "\<forall>i < length (t # ts). builderType ((b # bs) ! i) = (t # ts) ! i
          \<and> arrayCells (finish ((b # bs) ! i)) = []"
  proof (intro allI impI)
    fix i assume "i < length (t # ts)"
    then show "builderType ((b # bs) ! i) = (t # ts) ! i \<and> arrayCells (finish ((b # bs) ! i)) = []"
      using b(2,3) bs(3) by (cases i) simp_all
  qed
  then show ?case
    using b(1) bs(1,2) by (simp del: makeBuilder.simps)
qed

text \<open>
  C9, as amended. When every given column type is \<open>INT64\<close>, \<open>DOUBLE\<close> or \<open>STRING\<close>, the
  import succeeds; the column types are the given ones, padded with non-nullable text up to the
  column count of the sheet; there is one array per column type; and for every column of the
  sheet the array has one slot per data row, which holds the converted content of the source
  cell when the cell exists and has content, and otherwise null when the column is nullable and
  the default value of the column's type when it is not.
\<close>

theorem xlsx_import:
  assumes supported: "list_all (\<lambda>t. typeId t \<noteq> OTHER) columnTypes0"
  shows "\<exists>r. readXlsxFile decideColumnNames d sheet header columnTypes0 = Inr r
       \<and> columnTypes r
           = columnTypes0 @ replicate (highest_column sheet - length columnTypes0) nonNullableText
       \<and> length (arrays r) = length (columnTypes r)
       \<and> (\<forall>c < highest_column sheet.
             arrayCells (arrays r ! c)
               = map (\<lambda>row. importedSlot d (columnTypes r ! c) (cellAt sheet (c + 1, row + 1)))
                   [firstDataRow header..<highest_row sheet])"
proof -
  define n where "n = highest_column sheet"
  define rows where "rows = [firstDataRow header..<highest_row sheet]"
  define ts where "ts = columnTypes0 @ replicate (n - length columnTypes0) nonNullableText"
  have ts_if: "(if length columnTypes0 < n
                then columnTypes0 @ replicate (n - length columnTypes0) nonNullableText
                else columnTypes0) = ts"
    by (simp add: ts_def)
  have len_ts: "n \<le> length ts"
    by (simp add: ts_def)
  have "list_all (\<lambda>t. typeId t \<noteq> OTHER) ts"
    using supported by (auto simp: ts_def nonNullableText_def list_all_iff)
  then obtain bs where bs: "makeBuilders ts = Inr bs" "length bs = length ts"
      "\<forall>i < length ts. builderType (bs ! i) = ts ! i \<and> arrayCells (finish (bs ! i)) = []"
    using makeBuilders_supported by blast
  have pad: "bs @ replicate (n - length bs) (StringBuilder False []) = bs"
    using bs(2) len_ts by simp
  define filled where "filled = fill_columns d sheet rows [0..<n] bs"
  have filled: "length filled = length bs"
      "\<forall>c < length bs. filled ! c
          = (if c \<in> set [0..<n] then fill_column d sheet c rows (bs ! c) else bs ! c)"
    using fill_columns_nth [of "[0..<n]" bs d sheet rows] bs(2) len_ts
    by (simp_all add: filled_def)
  define r where "r = \<lparr>names = decideColumnNames n header (firstRowText sheet), arrays = map finish filled,
                         columnTypes = ts\<rparr>"
  have res: "readXlsxFile decideColumnNames d sheet header columnTypes0 = Inr r"
    unfolding readXlsxFile_def Let_def n_def [symmetric] rows_def [symmetric] ts_if
    using bs(1) pad by (simp add: r_def filled_def)
  have slots: "arrayCells (arrays r ! c)
        = map (\<lambda>row. importedSlot d (columnTypes r ! c) (cellAt sheet (c + 1, row + 1))) rows"
    if c: "c < n" for c
  proof -
    have cl: "c < length bs"
      using c bs(2) len_ts by simp
    then have "filled ! c = fill_column d sheet c rows (bs ! c)"
      using filled(2) c by simp
    moreover have "builderType (bs ! c) = ts ! c" "arrayCells (finish (bs ! c)) = []"
      using bs(3) cl bs(2) by simp_all
    ultimately show ?thesis
      using fill_column_slots [of d sheet c rows "bs ! c"] cl filled(1)
      by (simp add: r_def)
  qed
  have "readXlsxFile decideColumnNames d sheet header columnTypes0 = Inr r
       \<and> columnTypes r = ts
       \<and> length (arrays r) = length (columnTypes r)
       \<and> (\<forall>c < n. arrayCells (arrays r ! c)
             = map (\<lambda>row. importedSlot d (columnTypes r ! c) (cellAt sheet (c + 1, row + 1))) rows)"
    using res slots filled(1) bs(2) by (simp add: r_def)
  then show ?thesis
    unfolding ts_def n_def rows_def by (rule exI)
qed

theorem xlsx_import_witness:
  "list_all (\<lambda>t. typeId t \<noteq> OTHER) [\<lparr>typeId = INT64, nullable = True\<rparr>]
   \<and> readXlsxFile exNames exDefaults exSheetN OtherHeaderPolicy [\<lparr>typeId = INT64, nullable = True\<rparr>]
       = Inr \<lparr>names = [''col''], arrays = [Int64Array [Some 7, None, None]],
              columnTypes = [\<lparr>typeId = INT64, nullable = True\<rparr>]\<rparr>
   \<and> (\<exists>r. readXlsxFile exNames exDefaults exSheetN OtherHeaderPolicy
              [\<lparr>typeId = INT64, nullable = True\<rparr>] = Inr r
         \<and> arrayCells (arrays r ! 0) = [Some (Int64Cell 7), None, None])"
proof -
  have h: "list_all (\<lambda>t. typeId t \<noteq> OTHER) [\<lparr>typeId = INT64, nullable = True\<rparr>]"
    by simp
  have run: "readXlsxFile exNames exDefaults exSheetN OtherHeaderPolicy [\<lparr>typeId = INT64, nullable = True\<rparr>]
       = Inr \<lparr>names = [''col''], arrays = [Int64Array [Some 7, None, None]],
              columnTypes = [\<lparr>typeId = INT64, nullable = True\<rparr>]\<rparr>"
    by (simp add: readXlsxFile_def exSheetN_def exNames_def firstDataRow_def exCell7_def
        exCellBlank_def upt_rec)
  show ?thesis
    using h run xlsx_import [OF h, of exNames exDefaults exSheetN OtherHeaderPolicy]
    by simp
qed

text \<open>
  C9 as stated fails: with no type information the column is non-nullable text, and the row
  whose reference has no cell gets the default string, not an absent value.
\<close>

theorem xlsx_missing_cell_not_absent:
  "readXlsxFile exNames exDefaults exSheet OtherHeaderPolicy []
     = Inr \<lparr>names = [''col''], arrays = [StringArray [Some ''x'', Some []]],
            columnTypes = [\<lparr>typeId = STRING, nullable = False\<rparr>]\<rparr>"
  by (simp add: readXlsxFile_def exSheet_def exNames_def firstDataRow_def exCellX_def
      exDefaults_def nonNullableText_def upt_rec)

end
